theory Spec2Isabelle
  imports Main
begin

section \<open>Python values carried by the records\<close>

text \<open>
  The translator only stores, compares and prints the values it is given, so a Python
  value is modelled by a small universe. A float (a timestamp, a metric value, a changed
  parameter value) is carried by its \<^verbatim>\<open>repr\<close>, which is what \<^verbatim>\<open>str\<close> prints;
  \<^verbatim>\<open>datetime.fromtimestamp(t)\<close> is carried by its timestamp \<open>t\<close>. A dataclass
  instance seen by value (the view that \<^verbatim>\<open>==\<close> compares) is \<open>O_object\<close>
  with the class name and the field values in declaration order.
\<close>

datatype pyfloat = PyFloat string

type_synonym datetime = pyfloat

datatype obj =
    O_None
  | O_int int
  | O_str string
  | O_float pyfloat
  | O_datetime datetime
  | O_qname string
  | O_list "obj list"
  | O_object string "obj list"

fun str_float :: "pyfloat \<Rightarrow> string" where
  "str_float (PyFloat r) = r"

definition digit_char :: "nat \<Rightarrow> char" where
  "digit_char n = ''0123456789ABCDEF'' ! n"

fun str_nat :: "nat \<Rightarrow> string" where
  "str_nat n = (if n < 10 then [digit_char n] else str_nat (n div 10) @ [digit_char (n mod 10)])"

declare str_nat.simps [simp del]

definition str_int :: "int \<Rightarrow> string" where
  "str_int i = (if i < 0 then CHR ''-'' # str_nat (nat (- i)) else str_nat (nat i))"

text \<open>
  \<^verbatim>\<open>urllib.parse.quote_plus(s, safe="")\<close> on the bytes of \<open>s\<close>: letters, digits and
  \<^verbatim>\<open>_.-~\<close> stay, a space becomes \<^verbatim>\<open>+\<close>, every other byte becomes \<^verbatim>\<open>%XX\<close>.
\<close>

definition always_safe :: "char \<Rightarrow> bool" where
  "always_safe c \<longleftrightarrow>
     c \<in> set ''ABCDEFGHIJKLMNOPQRSTUVWXYZabcdefghijklmnopqrstuvwxyz0123456789_.-~''"

definition quote_char :: "char \<Rightarrow> string" where
  "quote_char c =
     (if c = CHR '' '' then ''+''
      else if always_safe c then [c]
      else [CHR ''%'', digit_char (of_char c div 16), digit_char (of_char c mod 16)])"

definition quote_plus :: "string \<Rightarrow> string" where
  "quote_plus s = concat (map quote_char s)"

section \<open>Domain constants (domain/constants.py)\<close>

datatype PipelineChangeType =
    OPERATOR_CREATION
  | OPERATOR_MODIFICATION
  | OPERATOR_DELETION
  | CONNECTION_CREATION
  | CONNECTION_DELETION

fun str_PipelineChangeType :: "PipelineChangeType \<Rightarrow> string" where
  "str_PipelineChangeType OPERATOR_CREATION = ''OperatorCreation''"
| "str_PipelineChangeType OPERATOR_MODIFICATION = ''OperatorModification''"
| "str_PipelineChangeType OPERATOR_DELETION = ''OperatorDeletion''"
| "str_PipelineChangeType CONNECTION_CREATION = ''ConnectionCreation''"
| "str_PipelineChangeType CONNECTION_DELETION = ''ConnectionDeletion''"

datatype OperatorStepType =
    ON_SOURCE_PRODUCED_TUPLE
  | ON_TUPLE_TRANSMITTED
  | ON_STREAM_PROCESS_TUPLE
  | PRE_TUPLE_PROCESSED
  | ON_TUPLE_PROCESSED
  | ON_OP_EXECUTED

fun str_OperatorStepType :: "OperatorStepType \<Rightarrow> string" where
  "str_OperatorStepType ON_SOURCE_PRODUCED_TUPLE = ''OnSourceProducedTuple''"
| "str_OperatorStepType ON_TUPLE_TRANSMITTED = ''OnTupleTransmitted''"
| "str_OperatorStepType ON_STREAM_PROCESS_TUPLE = ''OnStreamProcessTuple''"
| "str_OperatorStepType PRE_TUPLE_PROCESSED = ''PreTupleProcessed''"
| "str_OperatorStepType ON_TUPLE_PROCESSED = ''OnTupleProcessed''"
| "str_OperatorStepType ON_OP_EXECUTED = ''OnOpExecuted''"

text \<open>class ProvRole\<close>

definition CREATED_PIPELINE_VERSION :: string where
  "CREATED_PIPELINE_VERSION = ''CreatedPipelineVersion''"
definition CREATED_PIPELINE_VERSION_REVISION :: string where
  "CREATED_PIPELINE_VERSION_REVISION = ''CreatedPipelineVersionRevision''"
definition CREATED_OPERATOR :: string where
  "CREATED_OPERATOR = ''CreatedOperator''"
definition MODIFIED_OPERATOR :: string where
  "MODIFIED_OPERATOR = ''ModifiedOperator''"
definition DELETED_OPERATOR :: string where
  "DELETED_OPERATOR = ''DeletedOperator''"
definition CREATED_CONNECTION :: string where
  "CREATED_CONNECTION = ''CreatedConnection''"
definition DELETED_CONNECTION :: string where
  "DELETED_CONNECTION = ''DeletedConnection''"
definition CREATED_OPERATOR_RUN :: string where
  "CREATED_OPERATOR_RUN = ''AddedOperatorRun''"
definition USED_PARENT_PIPELINE_VERSION :: string where
  "USED_PARENT_PIPELINE_VERSION = ''UsedParentPipelineVersion''"
definition USED_PARENT_PIPELINE_VERSION_REVISION :: string where
  "USED_PARENT_PIPELINE_VERSION_REVISION = ''UsedParentPipelineVersionRevision''"
definition USED_OPERATOR_REVISION :: string where
  "USED_OPERATOR_REVISION = ''UsedOperatorRevision''"
definition USED_PARENT_OPERATOR_REVISION :: string where
  "USED_PARENT_OPERATOR_REVISION = ''UsedParentOperatorRevision''"

section \<open>PROV records (the part of the prov library the builders use)\<close>

text \<open>
  A qualified name is a namespace and a local part; \<^verbatim>\<open>str\<close> of it is the local part
  when the namespace has no prefix (a default namespace) and \<^verbatim>\<open>prefix:local\<close>
  otherwise. A document is the list of its records in insertion order:
  \<^verbatim>\<open>new_record\<close> appends. A relation keeps the identifiers of its two formal
  endpoints and its other attributes.
\<close>

record Namespace =
  ns_prefix :: string
  ns_uri :: string

record QualifiedName =
  qn_namespace :: Namespace
  qn_localpart :: string

definition str_QualifiedName :: "QualifiedName \<Rightarrow> string" where
  "str_QualifiedName q =
     (if ns_prefix (qn_namespace q) = [] then qn_localpart q
      else ns_prefix (qn_namespace q) @ '':'' @ qn_localpart q)"

datatype prov_record_type =
    PROV_ENTITY
  | PROV_ACTIVITY
  | PROV_GENERATION
  | PROV_USAGE
  | PROV_COMMUNICATION
  | PROV_DERIVATION
  | PROV_INVALIDATION
  | PROV_MEMBERSHIP
  | PROV_SPECIALIZATION

record ProvElement =
  el_prov_type :: prov_record_type
  el_identifier :: QualifiedName
  el_attributes :: "(string \<times> obj) list"

record ProvRelation =
  rel_prov_type :: prov_record_type
  rel_identifier :: "QualifiedName option"
  rel_source :: QualifiedName
  rel_target :: QualifiedName
  rel_attributes :: "(string \<times> obj) list"

datatype ProvRecord = Elem ProvElement | Rel ProvRelation

type_synonym ProvDocument = "ProvRecord list"

fun record_identifier :: "ProvRecord \<Rightarrow> QualifiedName option" where
  "record_identifier (Elem e) = Some (el_identifier e)"
| "record_identifier (Rel r) = rel_identifier r"

section \<open>prov/model.py: the provenance context\<close>

definition DEFAULT_NAMESPACE :: Namespace where
  "DEFAULT_NAMESPACE = \<lparr>ns_prefix = ''ex'', ns_uri = ''example.org''\<rparr>"

text \<open>
  The relation classes handed to \<^verbatim>\<open>add_relation\<close>. \<open>ProvRevision\<close> is the
  repository's subclass of \<open>ProvDerivation\<close>: it inherits the record type of a
  derivation.
\<close>

datatype relationship_type =
    ProvGeneration
  | ProvUsage
  | ProvCommunication
  | ProvDerivation
  | ProvRevision
  | ProvInvalidation
  | ProvMembership
  | ProvSpecialization

fun prov_type :: "relationship_type \<Rightarrow> prov_record_type" where
  "prov_type ProvGeneration = PROV_GENERATION"
| "prov_type ProvUsage = PROV_USAGE"
| "prov_type ProvCommunication = PROV_COMMUNICATION"
| "prov_type ProvDerivation = PROV_DERIVATION"
| "prov_type ProvRevision = PROV_DERIVATION"
| "prov_type ProvInvalidation = PROV_INVALIDATION"
| "prov_type ProvMembership = PROV_MEMBERSHIP"
| "prov_type ProvSpecialization = PROV_SPECIALIZATION"

definition PROV_TYPE :: string where "PROV_TYPE = ''prov:type''"
definition PROV_ROLE :: string where "PROV_ROLE = ''prov:role''"
definition PROV_ATTR_TIME :: string where "PROV_ATTR_TIME = ''prov:time''"
definition PROV_ATTR_STARTTIME :: string where "PROV_ATTR_STARTTIME = ''prov:startTime''"
definition PROV_ATTR_ENDTIME :: string where "PROV_ATTR_ENDTIME = ''prov:endTime''"
definition PROV_Revision :: obj where "PROV_Revision = O_qname ''prov:Revision''"

text \<open>
  \<^verbatim>\<open>ProvContext.add_element\<close>, given the result of the instance's \<^verbatim>\<open>to_prov()\<close>:
  with \<open>check_exists\<close> a record that already has the identifier is kept and nothing is
  added.
\<close>

definition add_element :: "ProvElement \<Rightarrow> bool \<Rightarrow> ProvDocument \<Rightarrow> ProvDocument" where
  "add_element element check_exists document =
     (if check_exists \<and> find (\<lambda>r. record_identifier r = Some (el_identifier element)) document \<noteq> None
      then document
      else document @ [Elem element])"

text \<open>
  \<^verbatim>\<open>ProvContext.add_relation\<close>, given the \<^verbatim>\<open>to_prov()\<close> of source and target. The
  source never reads its own \<open>check_exists\<close> argument, so the model has none.
\<close>

definition add_relation ::
  "ProvElement \<Rightarrow> ProvElement \<Rightarrow> relationship_type \<Rightarrow> (string \<times> obj) list \<Rightarrow>
   ProvDocument \<Rightarrow> ProvDocument" where
  "add_relation source target relationship_type attributes document =
     document @
     [Rel \<lparr>rel_prov_type = prov_type relationship_type,
           rel_identifier =
             (if relationship_type \<noteq> ProvSpecialization \<and> relationship_type \<noteq> ProvMembership
              then Some \<lparr>qn_namespace = DEFAULT_NAMESPACE,
                         qn_localpart = ''relation:'' @ str_QualifiedName (el_identifier source)
                           @ '':'' @ str_QualifiedName (el_identifier target)\<rparr>
              else None),
           rel_source = el_identifier source,
           rel_target = el_identifier target,
           rel_attributes =
             attributes @ (if relationship_type = ProvRevision then [(PROV_TYPE, PROV_Revision)] else [])\<rparr>]"

section \<open>domain/model.py: the domain records\<close>

text \<open>
  Field names carry the record's initials, since HOL field names are global. The two
  lists of a \<open>PipelineVersionRevision\<close> are Python list objects that the translator
  hands from one record to the next and changes in place, so the record holds their
  addresses and the lists live in a heap. Parameter and metric lists are built once and
  never shared; they are held by value.
\<close>

type_synonym ref = nat

record PipelineVersion =
  pv_id :: int
  pv_parent_pipeline_version_id :: "int option"

record Operator =
  op_id :: int
  op_name :: string

record Parameter =
  par_name :: string
  par_value :: obj

record OperatorRevision =
  oprev_uuid :: string
  oprev_id :: int
  oprev_operator :: Operator
  oprev_parameters :: "Parameter list"
  oprev_parent_operator_revision_uuid :: "string option"

record Connection =
  con_id :: int
  con_from_operator_id :: int
  con_to_operator_id :: int

record PipelineVersionRevision =
  pvr_uuid :: string
  pvr_id :: int
  pvr_pipeline_version :: PipelineVersion
  pvr_parent_pipeline_version_revision_uuid :: "string option"
  pvr_operators :: ref
  pvr_connections :: ref

record Metric =
  met_name :: string
  met_value :: pyfloat

record OperatorRun =
  run_id :: string
  run_created_at :: datetime
  run_metrics :: "Metric list"

record PipelineVersionCreation =
  pvc_uuid :: string
  pvc_pipeline_version_revision :: PipelineVersionRevision
  pvc_parent_pipeline_version_creation_uuid :: "string option"
  pvc_time :: datetime

text \<open>
  \<open>PipelineChange\<close> and its five subclasses: a subclass fixes the change type and which
  of \<open>operator_revision\<close> and \<open>connection\<close> is set (\<^verbatim>\<open>__post_init__\<close>).
\<close>

record PipelineChange =
  pc_uuid :: string
  pc_pipeline_change_type :: PipelineChangeType
  pc_time :: datetime
  pc_operator_revision :: "OperatorRevision option"
  pc_connection :: "Connection option"
  pc_pipeline_version_revision :: PipelineVersionRevision
  pc_parent_pipeline_change_uuid :: "string option"

definition OperatorCreationPipelineChange ::
  "string \<Rightarrow> datetime \<Rightarrow> OperatorRevision \<Rightarrow> PipelineVersionRevision \<Rightarrow> string option \<Rightarrow> PipelineChange" where
  "OperatorCreationPipelineChange uuid time operator_revision pipeline_version_revision parent =
     \<lparr>pc_uuid = uuid, pc_pipeline_change_type = OPERATOR_CREATION, pc_time = time,
      pc_operator_revision = Some operator_revision, pc_connection = None,
      pc_pipeline_version_revision = pipeline_version_revision,
      pc_parent_pipeline_change_uuid = parent\<rparr>"

definition OperatorModificationPipelineChange ::
  "string \<Rightarrow> datetime \<Rightarrow> OperatorRevision \<Rightarrow> PipelineVersionRevision \<Rightarrow> string option \<Rightarrow> PipelineChange" where
  "OperatorModificationPipelineChange uuid time operator_revision pipeline_version_revision parent =
     \<lparr>pc_uuid = uuid, pc_pipeline_change_type = OPERATOR_MODIFICATION, pc_time = time,
      pc_operator_revision = Some operator_revision, pc_connection = None,
      pc_pipeline_version_revision = pipeline_version_revision,
      pc_parent_pipeline_change_uuid = parent\<rparr>"

definition OperatorDeletionPipelineChange ::
  "string \<Rightarrow> datetime \<Rightarrow> OperatorRevision \<Rightarrow> PipelineVersionRevision \<Rightarrow> string option \<Rightarrow> PipelineChange" where
  "OperatorDeletionPipelineChange uuid time operator_revision pipeline_version_revision parent =
     \<lparr>pc_uuid = uuid, pc_pipeline_change_type = OPERATOR_DELETION, pc_time = time,
      pc_operator_revision = Some operator_revision, pc_connection = None,
      pc_pipeline_version_revision = pipeline_version_revision,
      pc_parent_pipeline_change_uuid = parent\<rparr>"

definition ConnectionCreationPipelineChange ::
  "string \<Rightarrow> datetime \<Rightarrow> Connection \<Rightarrow> PipelineVersionRevision \<Rightarrow> string option \<Rightarrow> PipelineChange" where
  "ConnectionCreationPipelineChange uuid time connection pipeline_version_revision parent =
     \<lparr>pc_uuid = uuid, pc_pipeline_change_type = CONNECTION_CREATION, pc_time = time,
      pc_operator_revision = None, pc_connection = Some connection,
      pc_pipeline_version_revision = pipeline_version_revision,
      pc_parent_pipeline_change_uuid = parent\<rparr>"

definition ConnectionDeletionPipelineChange ::
  "string \<Rightarrow> datetime \<Rightarrow> Connection \<Rightarrow> PipelineVersionRevision \<Rightarrow> string option \<Rightarrow> PipelineChange" where
  "ConnectionDeletionPipelineChange uuid time connection pipeline_version_revision parent =
     \<lparr>pc_uuid = uuid, pc_pipeline_change_type = CONNECTION_DELETION, pc_time = time,
      pc_operator_revision = None, pc_connection = Some connection,
      pc_pipeline_version_revision = pipeline_version_revision,
      pc_parent_pipeline_change_uuid = parent\<rparr>"

record OperatorExecution =
  oe_uuid :: string
  oe_operator_revision :: OperatorRevision
  oe_operator_run :: OperatorRun
  oe_operator_step_type :: OperatorStepType
  oe_time :: datetime

subsection \<open>PROV identifiers and \<open>to_prov\<close>\<close>

text \<open>utils/prov\_utils.py: a name in the document factory's default namespace.\<close>

definition qualified_name :: "string \<Rightarrow> QualifiedName" where
  "qualified_name localpart =
     \<lparr>qn_namespace =
        \<lparr>ns_prefix = [], ns_uri = ''https://dbgit.prakinf.tu-ilmenau.de/masc7357/provinspector/''\<rparr>,
      qn_localpart = localpart\<rparr>"

definition PipelineVersion_to_prov :: "PipelineVersion \<Rightarrow> ProvElement" where
  "PipelineVersion_to_prov x =
     \<lparr>el_prov_type = PROV_ENTITY,
      el_identifier = qualified_name (''PipelineVersion?id='' @ quote_plus (str_int (pv_id x))),
      el_attributes = [(''id'', O_int (pv_id x)), (PROV_TYPE, O_str ''PipelineVersion'')]\<rparr>"

definition PipelineVersionRevision_to_prov :: "PipelineVersionRevision \<Rightarrow> ProvElement" where
  "PipelineVersionRevision_to_prov x =
     \<lparr>el_prov_type = PROV_ENTITY,
      el_identifier = qualified_name (''PipelineVersionRevision?uuid='' @ quote_plus (pvr_uuid x)),
      el_attributes = [(''uuid'', O_str (pvr_uuid x)), (''id'', O_int (pvr_id x)),
                       (PROV_TYPE, O_str ''PipelineVersionRevision'')]\<rparr>"

definition Operator_to_prov :: "Operator \<Rightarrow> ProvElement" where
  "Operator_to_prov x =
     \<lparr>el_prov_type = PROV_ENTITY,
      el_identifier = qualified_name (''Operator?id='' @ quote_plus (str_int (op_id x))),
      el_attributes = [(''id'', O_int (op_id x)), (''name'', O_str (op_name x)),
                       (PROV_TYPE, O_str ''Operator'')]\<rparr>"

definition OperatorRevision_to_prov :: "OperatorRevision \<Rightarrow> ProvElement" where
  "OperatorRevision_to_prov x =
     \<lparr>el_prov_type = PROV_ENTITY,
      el_identifier = qualified_name (''OperatorRevision?uuid='' @ quote_plus (oprev_uuid x)),
      el_attributes = [(''uuid'', O_str (oprev_uuid x)), (''id'', O_int (oprev_id x)),
                       (PROV_TYPE, O_str ''OperatorRevision'')]\<rparr>"

text \<open>
  A parameter is named by Python's built-in \<^verbatim>\<open>hash\<close> of its value, which is given
  to the model as the function \<open>hash\<close>.
\<close>

definition Parameter_to_prov :: "(obj \<Rightarrow> int) \<Rightarrow> Parameter \<Rightarrow> ProvElement" where
  "Parameter_to_prov hash x =
     \<lparr>el_prov_type = PROV_ENTITY,
      el_identifier = qualified_name (''Parameter?name='' @ quote_plus (par_name x)
                        @ ''&value='' @ str_int (hash (par_value x))),
      el_attributes = [(''name'', O_str (par_name x)), (''value'', O_int (hash (par_value x))),
                       (PROV_TYPE, O_str ''Parameter'')]\<rparr>"

definition OperatorRun_to_prov :: "OperatorRun \<Rightarrow> ProvElement" where
  "OperatorRun_to_prov x =
     \<lparr>el_prov_type = PROV_ENTITY,
      el_identifier = qualified_name (''OperatorRun?id='' @ quote_plus (run_id x)),
      el_attributes = [(''id'', O_str (run_id x)), (''time'', O_datetime (run_created_at x)),
                       (PROV_TYPE, O_str ''OperatorRun''), (PROV_TYPE, O_qname ''prov:collection'')]\<rparr>"

definition Metric_to_prov :: "Metric \<Rightarrow> ProvElement" where
  "Metric_to_prov x =
     \<lparr>el_prov_type = PROV_ENTITY,
      el_identifier = qualified_name (''Metric?name='' @ quote_plus (met_name x)
                        @ ''&value='' @ str_float (met_value x)),
      el_attributes = [(''name'', O_str (met_name x)), (''value'', O_float (met_value x)),
                       (PROV_TYPE, O_str ''Metric'')]\<rparr>"

definition Connection_to_prov :: "Connection \<Rightarrow> ProvElement" where
  "Connection_to_prov x =
     \<lparr>el_prov_type = PROV_ENTITY,
      el_identifier = qualified_name (''Connection?id='' @ quote_plus (str_int (con_id x))),
      el_attributes = [(''id'', O_int (con_id x)),
                       (''from_operator_id'', O_str (str_int (con_from_operator_id x))),
                       (''to_operator_id'', O_str (str_int (con_to_operator_id x))),
                       (PROV_TYPE, O_str ''Connection'')]\<rparr>"

definition PipelineVersionCreation_to_prov :: "PipelineVersionCreation \<Rightarrow> ProvElement" where
  "PipelineVersionCreation_to_prov x =
     \<lparr>el_prov_type = PROV_ACTIVITY,
      el_identifier = qualified_name (''PipelineVersionCreation?uuid='' @ quote_plus (pvc_uuid x)),
      el_attributes = [(''uuid'', O_str (pvc_uuid x)),
                       (PROV_ATTR_STARTTIME, O_datetime (pvc_time x)),
                       (PROV_ATTR_ENDTIME, O_datetime (pvc_time x)),
                       (PROV_TYPE, O_str ''PipelineVersionCreation'')]\<rparr>"

definition PipelineChange_to_prov :: "PipelineChange \<Rightarrow> ProvElement" where
  "PipelineChange_to_prov x =
     \<lparr>el_prov_type = PROV_ACTIVITY,
      el_identifier = qualified_name (''PipelineChange?uuid='' @ quote_plus (pc_uuid x)),
      el_attributes = [(''uuid'', O_str (pc_uuid x)),
                       (''pipeline_change_type'', O_str (str_PipelineChangeType (pc_pipeline_change_type x))),
                       (PROV_ATTR_STARTTIME, O_datetime (pc_time x)),
                       (PROV_ATTR_ENDTIME, O_datetime (pc_time x)),
                       (PROV_TYPE, O_str ''PipelineChange'')]\<rparr>"

definition OperatorExecution_to_prov :: "OperatorExecution \<Rightarrow> ProvElement" where
  "OperatorExecution_to_prov x =
     \<lparr>el_prov_type = PROV_ACTIVITY,
      el_identifier = qualified_name (''OperatorExecution?uuid='' @ quote_plus (oe_uuid x)),
      el_attributes = [(''uuid'', O_str (oe_uuid x)),
                       (''pipeline_change_type'', O_str (str_OperatorStepType (oe_operator_step_type x))),
                       (PROV_ATTR_STARTTIME, O_datetime (oe_time x)),
                       (PROV_ATTR_ENDTIME, O_datetime (oe_time x)),
                       (PROV_TYPE, O_str ''OperatorExecution'')]\<rparr>"

section \<open>The heap of shared lists\<close>

record heap =
  operator_lists :: "ref \<Rightarrow> OperatorRevision list"
  connection_lists :: "ref \<Rightarrow> Connection list"
  next_ref :: ref

definition operators_of :: "heap \<Rightarrow> PipelineVersionRevision \<Rightarrow> OperatorRevision list" where
  "operators_of h r = operator_lists h (pvr_operators r)"

definition connections_of :: "heap \<Rightarrow> PipelineVersionRevision \<Rightarrow> Connection list" where
  "connections_of h r = connection_lists h (pvr_connections r)"

section \<open>prov/model.py: the sub-model builders\<close>

text \<open>
  A builder starts from an empty document and runs its \<^verbatim>\<open>add_element\<close> and
  \<^verbatim>\<open>add_relation\<close> calls in the order of the source; a \<^verbatim>\<open>for\<close> loop contributes
  the calls of each round. Reading a field of \<^verbatim>\<open>None\<close> raises \<open>AttributeError\<close>.
\<close>

datatype error = StopIteration | AttributeError | IndexError | ValueError

datatype Model =
    PipelineVersionCreationModel PipelineVersionCreation "PipelineVersionRevision option"
      "PipelineVersionCreation option"
  | OperatorCreationModel PipelineChange "PipelineChange option" "PipelineVersionRevision option"
  | OperatorModificationModel PipelineChange "PipelineChange option" "OperatorRevision option"
      "PipelineVersionRevision option"
  | OperatorDeletionModel PipelineChange "PipelineChange option" "PipelineVersionRevision option"
  | ConnectionCreationModel PipelineChange "PipelineChange option" "PipelineVersionRevision option"
  | ConnectionDeletionModel PipelineChange "PipelineChange option" "PipelineVersionRevision option"
  | OperationExecutionModel OperatorExecution

definition run_steps :: "(ProvDocument \<Rightarrow> ProvDocument) list \<Rightarrow> ProvDocument" where
  "run_steps steps = fold (\<lambda>step document. step document) steps []"

definition time_role :: "datetime \<Rightarrow> string \<Rightarrow> (string \<times> obj) list" where
  "time_role t role = [(PROV_ATTR_TIME, O_datetime t), (PROV_ROLE, O_str role)]"

definition build_PipelineVersionCreationModel ::
  "heap \<Rightarrow> PipelineVersionCreation \<Rightarrow> PipelineVersionRevision option \<Rightarrow>
   PipelineVersionCreation option \<Rightarrow> error + ProvDocument" where
  "build_PipelineVersionCreationModel h pipeline_version_creation parent_pipeline_version_revision
       parent_pipeline_version_creation =
     (let creation = PipelineVersionCreation_to_prov pipeline_version_creation;
          pipeline_version_revision = pvc_pipeline_version_revision pipeline_version_creation;
          revision = PipelineVersionRevision_to_prov pipeline_version_revision;
          pipeline_version = pvr_pipeline_version pipeline_version_revision;
          version = PipelineVersion_to_prov pipeline_version
      in if parent_pipeline_version_creation \<noteq> None \<and> parent_pipeline_version_revision = None
         then Inl AttributeError
         else Inr (run_steps
          ([add_element creation False]
           @ (case parent_pipeline_version_creation of
                None \<Rightarrow> []
              | Some parent_creation \<Rightarrow>
                  [add_element (PipelineVersionCreation_to_prov parent_creation) False,
                   add_relation creation (PipelineVersionCreation_to_prov parent_creation)
                     ProvCommunication []])
           @ [add_element revision False]
           @ concat (map (\<lambda>operator_revision.
                [add_element (OperatorRevision_to_prov operator_revision) False,
                 add_relation revision (OperatorRevision_to_prov operator_revision) ProvMembership [],
                 add_element (Operator_to_prov (oprev_operator operator_revision)) False,
                 add_relation (OperatorRevision_to_prov operator_revision)
                   (Operator_to_prov (oprev_operator operator_revision)) ProvSpecialization []])
              (operators_of h pipeline_version_revision))
           @ concat (map (\<lambda>connection.
                [add_element (Connection_to_prov connection) False,
                 add_relation revision (Connection_to_prov connection) ProvMembership []])
              (connections_of h pipeline_version_revision))
           @ [add_relation revision creation ProvGeneration
                (time_role (pvc_time pipeline_version_creation) CREATED_PIPELINE_VERSION_REVISION)]
           @ (case parent_pipeline_version_revision of
                None \<Rightarrow> []
              | Some parent_revision \<Rightarrow>
                  [add_element (PipelineVersionRevision_to_prov parent_revision) False,
                   add_relation revision (PipelineVersionRevision_to_prov parent_revision)
                     ProvDerivation [],
                   add_relation creation (PipelineVersionRevision_to_prov parent_revision) ProvUsage
                     (time_role (pvc_time pipeline_version_creation)
                        USED_PARENT_PIPELINE_VERSION_REVISION)])
           @ [add_element version False,
              add_relation revision version ProvSpecialization [],
              add_relation version creation ProvGeneration
                (time_role (pvc_time pipeline_version_creation) CREATED_PIPELINE_VERSION)]
           @ (case (parent_pipeline_version_creation, parent_pipeline_version_revision) of
                (Some parent_creation, Some parent_revision) \<Rightarrow>
                  (let parent_version = PipelineVersion_to_prov
                         (pvr_pipeline_version (pvc_pipeline_version_revision parent_creation))
                   in [add_element parent_version False,
                       add_relation (PipelineVersionRevision_to_prov parent_revision) parent_version
                         ProvSpecialization [],
                       add_relation version parent_version ProvDerivation [],
                       add_relation creation parent_version ProvUsage
                         (time_role (pvc_time pipeline_version_creation)
                            USED_PARENT_PIPELINE_VERSION)])
              | _ \<Rightarrow> []))))"

text \<open>
  The three blocks that the five change builders repeat word for word: the change and its
  parent change; the new revision with its members, its generation and its version; the
  parent revision.
\<close>

definition pipeline_change_steps ::
  "PipelineChange \<Rightarrow> PipelineChange option \<Rightarrow> (ProvDocument \<Rightarrow> ProvDocument) list" where
  "pipeline_change_steps pipeline_change parent_pipeline_change =
     [add_element (PipelineChange_to_prov pipeline_change) False]
     @ (case parent_pipeline_change of
          None \<Rightarrow> []
        | Some parent_change \<Rightarrow>
            [add_element (PipelineChange_to_prov parent_change) False,
             add_relation (PipelineChange_to_prov pipeline_change)
               (PipelineChange_to_prov parent_change) ProvCommunication []])"

definition pipeline_version_revision_steps ::
  "heap \<Rightarrow> PipelineChange \<Rightarrow> PipelineVersionRevision option \<Rightarrow>
   (ProvDocument \<Rightarrow> ProvDocument) list" where
  "pipeline_version_revision_steps h pipeline_change parent_pipeline_version_revision =
     (let change = PipelineChange_to_prov pipeline_change;
          pipeline_version_revision = pc_pipeline_version_revision pipeline_change;
          revision = PipelineVersionRevision_to_prov pipeline_version_revision;
          version = PipelineVersion_to_prov (pvr_pipeline_version pipeline_version_revision)
      in [add_element revision False]
         @ concat (map (\<lambda>operator_revision.
              [add_element (OperatorRevision_to_prov operator_revision) False,
               add_relation revision (OperatorRevision_to_prov operator_revision) ProvMembership []])
            (operators_of h pipeline_version_revision))
         @ concat (map (\<lambda>connection.
              [add_element (Connection_to_prov connection) False,
               add_relation revision (Connection_to_prov connection) ProvMembership []])
            (connections_of h pipeline_version_revision))
         @ [add_relation revision change ProvGeneration
              (time_role (pc_time pipeline_change) CREATED_PIPELINE_VERSION_REVISION),
            add_element version False,
            add_relation revision version ProvSpecialization []]
         @ (case parent_pipeline_version_revision of
              None \<Rightarrow> []
            | Some parent_revision \<Rightarrow>
                [add_element (PipelineVersionRevision_to_prov parent_revision) False,
                 add_relation revision (PipelineVersionRevision_to_prov parent_revision)
                   ProvRevision [],
                 add_relation change (PipelineVersionRevision_to_prov parent_revision) ProvUsage
                   (time_role (pc_time pipeline_change) USED_PARENT_PIPELINE_VERSION_REVISION)]))"

definition parameter_steps ::
  "(obj \<Rightarrow> int) \<Rightarrow> OperatorRevision \<Rightarrow> (ProvDocument \<Rightarrow> ProvDocument) list" where
  "parameter_steps hash operator_revision =
     concat (map (\<lambda>parameter.
        [add_element (Parameter_to_prov hash parameter) False,
         add_relation (OperatorRevision_to_prov operator_revision)
           (Parameter_to_prov hash parameter) ProvMembership []])
      (oprev_parameters operator_revision))"

definition build_OperatorCreationModel ::
  "(obj \<Rightarrow> int) \<Rightarrow> heap \<Rightarrow> PipelineChange \<Rightarrow> PipelineChange option \<Rightarrow>
   PipelineVersionRevision option \<Rightarrow> error + ProvDocument" where
  "build_OperatorCreationModel hash h pipeline_change parent_pipeline_change
       parent_pipeline_version_revision =
     (case pc_operator_revision pipeline_change of
        None \<Rightarrow> Inl AttributeError
      | Some operator_revision \<Rightarrow>
          Inr (run_steps
           (pipeline_change_steps pipeline_change parent_pipeline_change
            @ [add_element (OperatorRevision_to_prov operator_revision) False,
               add_relation (OperatorRevision_to_prov operator_revision)
                 (PipelineChange_to_prov pipeline_change) ProvGeneration
                 (time_role (pc_time pipeline_change) CREATED_OPERATOR),
               add_element (Operator_to_prov (oprev_operator operator_revision)) False,
               add_relation (OperatorRevision_to_prov operator_revision)
                 (Operator_to_prov (oprev_operator operator_revision)) ProvSpecialization []]
            @ parameter_steps hash operator_revision
            @ pipeline_version_revision_steps h pipeline_change parent_pipeline_version_revision)))"

definition build_OperatorModificationModel ::
  "(obj \<Rightarrow> int) \<Rightarrow> heap \<Rightarrow> PipelineChange \<Rightarrow> PipelineChange option \<Rightarrow>
   OperatorRevision option \<Rightarrow> PipelineVersionRevision option \<Rightarrow> error + ProvDocument" where
  "build_OperatorModificationModel hash h pipeline_change parent_pipeline_change
       parent_operator_revision parent_pipeline_version_revision =
     (case pc_operator_revision pipeline_change of
        None \<Rightarrow> Inl AttributeError
      | Some operator_revision \<Rightarrow>
          Inr (run_steps
           (pipeline_change_steps pipeline_change parent_pipeline_change
            @ [add_element (OperatorRevision_to_prov operator_revision) False,
               add_relation (OperatorRevision_to_prov operator_revision)
                 (PipelineChange_to_prov pipeline_change) ProvGeneration
                 (time_role (pc_time pipeline_change) MODIFIED_OPERATOR)]
            @ (case parent_operator_revision of
                 None \<Rightarrow> []
               | Some parent_revision \<Rightarrow>
                   [add_element (OperatorRevision_to_prov parent_revision) False,
                    add_relation (OperatorRevision_to_prov operator_revision)
                      (OperatorRevision_to_prov parent_revision) ProvRevision [],
                    add_relation (PipelineChange_to_prov pipeline_change)
                      (OperatorRevision_to_prov parent_revision) ProvUsage
                      (time_role (pc_time pipeline_change) USED_PARENT_OPERATOR_REVISION)])
            @ [add_element (Operator_to_prov (oprev_operator operator_revision)) False,
               add_relation (OperatorRevision_to_prov operator_revision)
                 (Operator_to_prov (oprev_operator operator_revision)) ProvSpecialization []]
            @ parameter_steps hash operator_revision
            @ pipeline_version_revision_steps h pipeline_change parent_pipeline_version_revision)))"

definition build_OperatorDeletionModel ::
  "heap \<Rightarrow> PipelineChange \<Rightarrow> PipelineChange option \<Rightarrow> PipelineVersionRevision option \<Rightarrow>
   error + ProvDocument" where
  "build_OperatorDeletionModel h pipeline_change parent_pipeline_change
       parent_pipeline_version_revision =
     (case pc_operator_revision pipeline_change of
        None \<Rightarrow> Inl AttributeError
      | Some operator_revision \<Rightarrow>
          Inr (run_steps
           (pipeline_change_steps pipeline_change parent_pipeline_change
            @ [add_element (OperatorRevision_to_prov operator_revision) False,
               add_relation (OperatorRevision_to_prov operator_revision)
                 (PipelineChange_to_prov pipeline_change) ProvInvalidation
                 (time_role (pc_time pipeline_change) DELETED_OPERATOR),
               add_element (Operator_to_prov (oprev_operator operator_revision)) False,
               add_relation (OperatorRevision_to_prov operator_revision)
                 (Operator_to_prov (oprev_operator operator_revision)) ProvSpecialization []]
            @ pipeline_version_revision_steps h pipeline_change parent_pipeline_version_revision)))"

definition build_ConnectionCreationModel ::
  "heap \<Rightarrow> PipelineChange \<Rightarrow> PipelineChange option \<Rightarrow> PipelineVersionRevision option \<Rightarrow>
   error + ProvDocument" where
  "build_ConnectionCreationModel h pipeline_change parent_pipeline_change
       parent_pipeline_version_revision =
     (case pc_connection pipeline_change of
        None \<Rightarrow> Inl AttributeError
      | Some connection \<Rightarrow>
          Inr (run_steps
           (pipeline_change_steps pipeline_change parent_pipeline_change
            @ [add_element (Connection_to_prov connection) False,
               add_relation (Connection_to_prov connection)
                 (PipelineChange_to_prov pipeline_change) ProvGeneration
                 (time_role (pc_time pipeline_change) CREATED_CONNECTION)]
            @ pipeline_version_revision_steps h pipeline_change parent_pipeline_version_revision)))"

definition build_ConnectionDeletionModel ::
  "heap \<Rightarrow> PipelineChange \<Rightarrow> PipelineChange option \<Rightarrow> PipelineVersionRevision option \<Rightarrow>
   error + ProvDocument" where
  "build_ConnectionDeletionModel h pipeline_change parent_pipeline_change
       parent_pipeline_version_revision =
     (case pc_connection pipeline_change of
        None \<Rightarrow> Inl AttributeError
      | Some connection \<Rightarrow>
          Inr (run_steps
           (pipeline_change_steps pipeline_change parent_pipeline_change
            @ [add_element (Connection_to_prov connection) False,
               add_relation (Connection_to_prov connection)
                 (PipelineChange_to_prov pipeline_change) ProvInvalidation
                 (time_role (pc_time pipeline_change) DELETED_CONNECTION)]
            @ pipeline_version_revision_steps h pipeline_change parent_pipeline_version_revision)))"

definition build_OperationExecutionModel ::
  "(obj \<Rightarrow> int) \<Rightarrow> OperatorExecution \<Rightarrow> ProvDocument" where
  "build_OperationExecutionModel hash operator_execution =
     (let execution = OperatorExecution_to_prov operator_execution;
          operator_revision = oe_operator_revision operator_execution;
          operator_run = oe_operator_run operator_execution
      in run_steps
          ([add_element execution False]
           @ parameter_steps hash operator_revision
           @ [add_element (OperatorRevision_to_prov operator_revision) False,
              add_relation execution (OperatorRevision_to_prov operator_revision) ProvUsage
                (time_role (oe_time operator_execution) USED_OPERATOR_REVISION),
              add_element (OperatorRun_to_prov operator_run) False,
              add_relation (OperatorRun_to_prov operator_run) execution ProvGeneration
                (time_role (oe_time operator_execution) CREATED_OPERATOR_RUN)]
           @ concat (map (\<lambda>metric.
                [add_element (Metric_to_prov metric) False,
                 add_relation (OperatorRun_to_prov operator_run) (Metric_to_prov metric)
                   ProvMembership [],
                 add_relation (OperatorRevision_to_prov operator_revision) (Metric_to_prov metric)
                   ProvMembership []])
              (run_metrics operator_run))))"

fun build :: "(obj \<Rightarrow> int) \<Rightarrow> heap \<Rightarrow> Model \<Rightarrow> error + ProvDocument" where
  "build hash h (PipelineVersionCreationModel c r p) = build_PipelineVersionCreationModel h c r p"
| "build hash h (OperatorCreationModel c p r) = build_OperatorCreationModel hash h c p r"
| "build hash h (OperatorModificationModel c p opr r) = build_OperatorModificationModel hash h c p opr r"
| "build hash h (OperatorDeletionModel c p r) = build_OperatorDeletionModel h c p r"
| "build hash h (ConnectionCreationModel c p r) = build_ConnectionCreationModel h c p r"
| "build hash h (ConnectionDeletionModel c p r) = build_ConnectionDeletionModel h c p r"
| "build hash h (OperationExecutionModel e) = Inr (build_OperationExecutionModel hash e)"

section \<open>storage/repository.py: the in-memory repository\<close>

text \<open>
  Python compares dataclass instances field by field, lists by their elements. The
  functions below give the value that \<^verbatim>\<open>==\<close> compares; for a revision this reads the
  two lists from the heap.
\<close>

fun opt_obj :: "('a \<Rightarrow> obj) \<Rightarrow> 'a option \<Rightarrow> obj" where
  "opt_obj f None = O_None"
| "opt_obj f (Some x) = f x"

definition value_PipelineVersion :: "PipelineVersion \<Rightarrow> obj" where
  "value_PipelineVersion x =
     O_object ''PipelineVersion'' [O_int (pv_id x), opt_obj O_int (pv_parent_pipeline_version_id x)]"

definition value_Operator :: "Operator \<Rightarrow> obj" where
  "value_Operator x = O_object ''Operator'' [O_int (op_id x), O_str (op_name x)]"

definition value_Parameter :: "Parameter \<Rightarrow> obj" where
  "value_Parameter x = O_object ''Parameter'' [O_str (par_name x), par_value x]"

definition value_OperatorRevision :: "OperatorRevision \<Rightarrow> obj" where
  "value_OperatorRevision x =
     O_object ''OperatorRevision''
       [O_str (oprev_uuid x), O_int (oprev_id x), value_Operator (oprev_operator x),
        O_list (map value_Parameter (oprev_parameters x)),
        opt_obj O_str (oprev_parent_operator_revision_uuid x)]"

definition value_Connection :: "Connection \<Rightarrow> obj" where
  "value_Connection x =
     O_object ''Connection''
       [O_int (con_id x), O_int (con_from_operator_id x), O_int (con_to_operator_id x)]"

definition value_PipelineVersionRevision :: "heap \<Rightarrow> PipelineVersionRevision \<Rightarrow> obj" where
  "value_PipelineVersionRevision h x =
     O_object ''PipelineVersionRevision''
       [O_str (pvr_uuid x), O_int (pvr_id x), value_PipelineVersion (pvr_pipeline_version x),
        opt_obj O_str (pvr_parent_pipeline_version_revision_uuid x),
        O_list (map value_OperatorRevision (operators_of h x)),
        O_list (map value_Connection (connections_of h x))]"

text \<open>
  The keyword arguments of \<^verbatim>\<open>get\<close> and \<^verbatim>\<open>list_all\<close> name fields of the resource
  type; \<^verbatim>\<open>getattr\<close> reads them.
\<close>

datatype PipelineVersion_field = PV_id | PV_parent_pipeline_version_id

datatype PipelineVersionRevision_field =
    PVR_uuid
  | PVR_id
  | PVR_pipeline_version
  | PVR_parent_pipeline_version_revision_uuid
  | PVR_operators
  | PVR_connections

datatype PipelineVersionCreation_field =
    PVC_uuid
  | PVC_pipeline_version_revision
  | PVC_parent_pipeline_version_creation_uuid
  | PVC_time

datatype PipelineChange_field =
    PC_uuid
  | PC_pipeline_change_type
  | PC_time
  | PC_operator_revision
  | PC_connection
  | PC_pipeline_version_revision
  | PC_parent_pipeline_change_uuid

fun getattr_PipelineVersion :: "PipelineVersion \<Rightarrow> PipelineVersion_field \<Rightarrow> obj" where
  "getattr_PipelineVersion x PV_id = O_int (pv_id x)"
| "getattr_PipelineVersion x PV_parent_pipeline_version_id =
     opt_obj O_int (pv_parent_pipeline_version_id x)"

fun getattr_PipelineVersionRevision ::
  "heap \<Rightarrow> PipelineVersionRevision \<Rightarrow> PipelineVersionRevision_field \<Rightarrow> obj" where
  "getattr_PipelineVersionRevision h x PVR_uuid = O_str (pvr_uuid x)"
| "getattr_PipelineVersionRevision h x PVR_id = O_int (pvr_id x)"
| "getattr_PipelineVersionRevision h x PVR_pipeline_version =
     value_PipelineVersion (pvr_pipeline_version x)"
| "getattr_PipelineVersionRevision h x PVR_parent_pipeline_version_revision_uuid =
     opt_obj O_str (pvr_parent_pipeline_version_revision_uuid x)"
| "getattr_PipelineVersionRevision h x PVR_operators =
     O_list (map value_OperatorRevision (operators_of h x))"
| "getattr_PipelineVersionRevision h x PVR_connections =
     O_list (map value_Connection (connections_of h x))"

fun getattr_PipelineVersionCreation ::
  "heap \<Rightarrow> PipelineVersionCreation \<Rightarrow> PipelineVersionCreation_field \<Rightarrow> obj" where
  "getattr_PipelineVersionCreation h x PVC_uuid = O_str (pvc_uuid x)"
| "getattr_PipelineVersionCreation h x PVC_pipeline_version_revision =
     value_PipelineVersionRevision h (pvc_pipeline_version_revision x)"
| "getattr_PipelineVersionCreation h x PVC_parent_pipeline_version_creation_uuid =
     opt_obj O_str (pvc_parent_pipeline_version_creation_uuid x)"
| "getattr_PipelineVersionCreation h x PVC_time = O_datetime (pvc_time x)"

fun getattr_PipelineChange :: "heap \<Rightarrow> PipelineChange \<Rightarrow> PipelineChange_field \<Rightarrow> obj" where
  "getattr_PipelineChange h x PC_uuid = O_str (pc_uuid x)"
| "getattr_PipelineChange h x PC_pipeline_change_type =
     O_object ''PipelineChangeType'' [O_str (str_PipelineChangeType (pc_pipeline_change_type x))]"
| "getattr_PipelineChange h x PC_time = O_datetime (pc_time x)"
| "getattr_PipelineChange h x PC_operator_revision =
     opt_obj value_OperatorRevision (pc_operator_revision x)"
| "getattr_PipelineChange h x PC_connection = opt_obj value_Connection (pc_connection x)"
| "getattr_PipelineChange h x PC_pipeline_version_revision =
     value_PipelineVersionRevision h (pc_pipeline_version_revision x)"
| "getattr_PipelineChange h x PC_parent_pipeline_change_uuid =
     opt_obj O_str (pc_parent_pipeline_change_uuid x)"

text \<open>
  The dictionary \<open>repo\<close> maps a resource type to the list of its resources in insertion
  order; a type that was never added to reads as the empty list
  (\<^verbatim>\<open>self.repo.get(resource_type, [])\<close>). The model has one list for each type the
  translator names.
\<close>

record repo =
  PipelineVersion_list :: "PipelineVersion list"
  PipelineVersionRevision_list :: "PipelineVersionRevision list"
  PipelineVersionCreation_list :: "PipelineVersionCreation list"
  PipelineChange_list :: "PipelineChange list"

definition empty_repo :: repo where
  "empty_repo =
     \<lparr>PipelineVersion_list = [], PipelineVersionRevision_list = [],
      PipelineVersionCreation_list = [], PipelineChange_list = []\<rparr>"

datatype resource =
    R_PipelineVersion PipelineVersion
  | R_PipelineVersionRevision PipelineVersionRevision
  | R_PipelineVersionCreation PipelineVersionCreation
  | R_PipelineChange PipelineChange

fun add :: "resource \<Rightarrow> repo \<Rightarrow> repo" where
  "add (R_PipelineVersion x) r = r\<lparr>PipelineVersion_list := PipelineVersion_list r @ [x]\<rparr>"
| "add (R_PipelineVersionRevision x) r =
     r\<lparr>PipelineVersionRevision_list := PipelineVersionRevision_list r @ [x]\<rparr>"
| "add (R_PipelineVersionCreation x) r =
     r\<lparr>PipelineVersionCreation_list := PipelineVersionCreation_list r @ [x]\<rparr>"
| "add (R_PipelineChange x) r = r\<lparr>PipelineChange_list := PipelineChange_list r @ [x]\<rparr>"

definition matches :: "('r \<Rightarrow> 'f \<Rightarrow> obj) \<Rightarrow> ('f \<times> obj) list \<Rightarrow> 'r \<Rightarrow> bool" where
  "matches getattr filters r = list_all (\<lambda>(key, val). getattr r key = val) filters"

definition get :: "('r \<Rightarrow> 'f \<Rightarrow> obj) \<Rightarrow> 'r list \<Rightarrow> ('f \<times> obj) list \<Rightarrow> 'r option" where
  "get getattr resources filters = find (matches getattr filters) resources"

definition list_all_resources ::
  "('r \<Rightarrow> 'f \<Rightarrow> obj) \<Rightarrow> 'r list \<Rightarrow> ('f \<times> obj) list \<Rightarrow> 'r list" where
  "list_all_resources getattr resources filters = filter (matches getattr filters) resources"

definition clear_repo :: "repo \<Rightarrow> repo" where
  "clear_repo r = empty_repo"

text \<open>
  \<open>repo\<close> is assigned in the class body of \<open>InMemoryRepository\<close> without an annotation, so
  it is an attribute of the class, not a field of the instances: an instance is created
  without an attribute of its own, and \<^verbatim>\<open>self.repo\<close> finds the attribute of the
  instance if it has one and the attribute of the class otherwise. The methods change the
  dictionary they find in place.
\<close>

record InMemoryRepository_world =
  class_repo :: repo
  instance_repo :: "nat \<Rightarrow> repo option"
  instance_count :: nat

definition new_InMemoryRepository :: "InMemoryRepository_world \<Rightarrow> nat \<times> InMemoryRepository_world" where
  "new_InMemoryRepository w =
     (instance_count w,
      w\<lparr>instance_repo := (instance_repo w)(instance_count w := None),
        instance_count := instance_count w + 1\<rparr>)"

definition self_repo :: "InMemoryRepository_world \<Rightarrow> nat \<Rightarrow> repo" where
  "self_repo w self = (case instance_repo w self of Some r \<Rightarrow> r | None \<Rightarrow> class_repo w)"

definition change_self_repo ::
  "(repo \<Rightarrow> repo) \<Rightarrow> nat \<Rightarrow> InMemoryRepository_world \<Rightarrow> InMemoryRepository_world" where
  "change_self_repo f self w =
     (case instance_repo w self of
        Some r \<Rightarrow> w\<lparr>instance_repo := (instance_repo w)(self := Some (f r))\<rparr>
      | None \<Rightarrow> w\<lparr>class_repo := f (class_repo w)\<rparr>)"

definition InMemoryRepository_add ::
  "nat \<Rightarrow> resource \<Rightarrow> InMemoryRepository_world \<Rightarrow> InMemoryRepository_world" where
  "InMemoryRepository_add self resource w = change_self_repo (add resource) self w"

definition InMemoryRepository_clear :: "nat \<Rightarrow> InMemoryRepository_world \<Rightarrow> InMemoryRepository_world" where
  "InMemoryRepository_clear self w = change_self_repo clear_repo self w"

text \<open>
  The resource type of a query is given by the list of the dictionary it selects, with
  the \<^verbatim>\<open>getattr\<close> of that type.
\<close>

definition InMemoryRepository_get ::
  "InMemoryRepository_world \<Rightarrow> nat \<Rightarrow> (repo \<Rightarrow> 'r list) \<Rightarrow> ('r \<Rightarrow> 'f \<Rightarrow> obj) \<Rightarrow>
   ('f \<times> obj) list \<Rightarrow> 'r option" where
  "InMemoryRepository_get w self resource_type getattr filters =
     get getattr (resource_type (self_repo w self)) filters"

definition InMemoryRepository_list_all ::
  "InMemoryRepository_world \<Rightarrow> nat \<Rightarrow> (repo \<Rightarrow> 'r list) \<Rightarrow> ('r \<Rightarrow> 'f \<Rightarrow> obj) \<Rightarrow>
   ('f \<times> obj) list \<Rightarrow> 'r list" where
  "InMemoryRepository_list_all w self resource_type getattr filters =
     list_all_resources getattr (resource_type (self_repo w self)) filters"

section \<open>data.py: the events\<close>

text \<open>
  The five change classes; \<open>change_type\<close> is fixed by the class
  (\<^verbatim>\<open>__post_init__\<close>), so the constructor stands for both tests of the source
  (\<^verbatim>\<open>c.change_type == ...\<close> and \<^verbatim>\<open>isinstance\<close>). Arguments in field order:
  \<open>id\<close>, then the fields of the class.
\<close>

datatype PipelineChangeData =
    OperatorCreationPipelineChangeData string int string "(string \<times> obj) list"
  | OperatorModificationPipelineChangeData string int string string obj
  | OperatorDeletionPipelineChangeData string int string
  | ConnectionCreationPipelineChangeData string int int int int int
  | ConnectionDeletionPipelineChangeData string int int int int int

record MetricData =
  md_name :: string
  md_value :: pyfloat

record DebugStepData =
  ds_id :: string
  ds_timestamp :: pyfloat
  ds_branch_id :: int
  ds_branch_local_step_id :: int
  ds_parent_branch_id :: "int option"
  ds_operator_id :: int
  ds_operator_name :: string
  ds_operator_step_type :: OperatorStepType
  ds_operator_metrics :: "MetricData list option"
  ds_changes :: "PipelineChangeData list option"

section \<open>provinspector.py: the translator\<close>

text \<open>
  The state of a \<open>ProvInspector\<close> and of the process around it: the graphs imported into
  the provenance database so far, the repository (the dictionary of the class, see
  above), the flag and the two cached ids, the heap of shared lists, the number of
  \<^verbatim>\<open>uuid4()\<close> calls so far (\<^verbatim>\<open>uuid4\<close> is modelled by a supply of pairwise
  different strings) and the warnings issued.
\<close>

record state =
  provenance_database :: "ProvDocument list"
  object_repository :: repo
  initialized :: bool
  last_pipeline_version_id :: int
  last_pipeline_version_revision_id :: int
  lists :: heap
  uuid_count :: nat
  warnings :: "string list"

definition INITIAL_PIPELINE_VERSION_ID :: int where "INITIAL_PIPELINE_VERSION_ID = 0"
definition INITIAL_PIPELINE_VERSION_REVISION_ID :: int where "INITIAL_PIPELINE_VERSION_REVISION_ID = 0"
definition INITIAL_PIPELINE_VERSION_CREATION_ID :: string where
  "INITIAL_PIPELINE_VERSION_CREATION_ID = ''uuid-initial''"
definition INITIAL_DATETIME :: datetime where "INITIAL_DATETIME = PyFloat ''0.0''"

definition new_ProvInspector :: "repo \<Rightarrow> state" where
  "new_ProvInspector r =
     \<lparr>provenance_database = [], object_repository = r, initialized = False,
      last_pipeline_version_id = INITIAL_PIPELINE_VERSION_ID,
      last_pipeline_version_revision_id = INITIAL_PIPELINE_VERSION_REVISION_ID,
      lists = \<lparr>operator_lists = (\<lambda>_. []), connection_lists = (\<lambda>_. []), next_ref = 0\<rparr>,
      uuid_count = 0, warnings = []\<rparr>"

definition uuid4 :: "state \<Rightarrow> string \<times> state" where
  "uuid4 s = (''uuid-'' @ str_nat (uuid_count s), s\<lparr>uuid_count := uuid_count s + 1\<rparr>)"

definition new_operator_list :: "OperatorRevision list \<Rightarrow> state \<Rightarrow> ref \<times> state" where
  "new_operator_list xs s =
     (next_ref (lists s),
      s\<lparr>lists := (lists s)\<lparr>operator_lists := (operator_lists (lists s))(next_ref (lists s) := xs),
                            next_ref := next_ref (lists s) + 1\<rparr>\<rparr>)"

definition new_connection_list :: "Connection list \<Rightarrow> state \<Rightarrow> ref \<times> state" where
  "new_connection_list xs s =
     (next_ref (lists s),
      s\<lparr>lists := (lists s)\<lparr>connection_lists := (connection_lists (lists s))(next_ref (lists s) := xs),
                            next_ref := next_ref (lists s) + 1\<rparr>\<rparr>)"

definition set_operator_list :: "ref \<Rightarrow> OperatorRevision list \<Rightarrow> state \<Rightarrow> state" where
  "set_operator_list r xs s =
     s\<lparr>lists := (lists s)\<lparr>operator_lists := (operator_lists (lists s))(r := xs)\<rparr>\<rparr>"

definition set_connection_list :: "ref \<Rightarrow> Connection list \<Rightarrow> state \<Rightarrow> state" where
  "set_connection_list r xs s =
     s\<lparr>lists := (lists s)\<lparr>connection_lists := (connection_lists (lists s))(r := xs)\<rparr>\<rparr>"

definition repository_add :: "resource \<Rightarrow> state \<Rightarrow> state" where
  "repository_add x s = s\<lparr>object_repository := add x (object_repository s)\<rparr>"


text \<open>
  \<^verbatim>\<open>add_model\<close>: the graph is built and imported; an exception of the builder leaves
  the database as it was.
\<close>

definition add_model :: "(obj \<Rightarrow> int) \<Rightarrow> Model \<Rightarrow> state \<Rightarrow> error option \<times> state" where
  "add_model hash model s =
     (case build hash (lists s) model of
        Inl e \<Rightarrow> (Some e, s)
      | Inr graph \<Rightarrow> (None, s\<lparr>provenance_database := provenance_database s @ [graph]\<rparr>))"

fun initial_members ::
  "PipelineChangeData list \<Rightarrow> OperatorRevision list \<Rightarrow> Connection list \<Rightarrow> state \<Rightarrow>
   (OperatorRevision list \<times> Connection list) \<times> state" where
  "initial_members [] operators connections s = ((operators, connections), s)"
| "initial_members (OperatorCreationPipelineChangeData i operator_id operator_name operator_data # data)
       operators connections s =
     (let (uuid, s1) = uuid4 s;
          operator_revision =
            \<lparr>oprev_uuid = uuid, oprev_id = 0,
             oprev_operator = \<lparr>op_id = operator_id, op_name = operator_name\<rparr>,
             oprev_parameters = map (\<lambda>(key, val). \<lparr>par_name = key, par_value = val\<rparr>) operator_data,
             oprev_parent_operator_revision_uuid = None\<rparr>
      in initial_members data (operators @ [operator_revision]) connections s1)"
| "initial_members (ConnectionCreationPipelineChangeData i connection_id from_operator_id
       to_operator_id from_socket_id to_socket_id # data) operators connections s =
     initial_members data operators
       (connections @ [\<lparr>con_id = connection_id, con_from_operator_id = from_operator_id,
                        con_to_operator_id = to_operator_id\<rparr>]) s"
| "initial_members (_ # data) operators connections s = initial_members data operators connections s"

definition initialize :: "(obj \<Rightarrow> int) \<Rightarrow> PipelineChangeData list \<Rightarrow> state \<Rightarrow> error option \<times> state" where
  "initialize hash data s =
     (if \<not> initialized s then
        (let ((operators, connections), s1) = initial_members data [] [] s;
             (operators_ref, s2) = new_operator_list operators s1;
             (connections_ref, s3) = new_connection_list connections s2;
             pipeline_version =
               \<lparr>pv_id = INITIAL_PIPELINE_VERSION_ID, pv_parent_pipeline_version_id = None\<rparr>;
             (uuid, s4) = uuid4 s3;
             pipeline_version_revision =
               \<lparr>pvr_uuid = uuid, pvr_id = INITIAL_PIPELINE_VERSION_REVISION_ID,
                pvr_pipeline_version = pipeline_version,
                pvr_parent_pipeline_version_revision_uuid = None,
                pvr_operators = operators_ref, pvr_connections = connections_ref\<rparr>;
             pipeline_version_creation =
               \<lparr>pvc_uuid = INITIAL_PIPELINE_VERSION_CREATION_ID,
                pvc_pipeline_version_revision = pipeline_version_revision,
                pvc_parent_pipeline_version_creation_uuid = None,
                pvc_time = INITIAL_DATETIME\<rparr>;
             s5 = repository_add (R_PipelineVersion pipeline_version) s4;
             s6 = repository_add (R_PipelineVersionRevision pipeline_version_revision) s5;
             s7 = repository_add (R_PipelineVersionCreation pipeline_version_creation) s6
         in case add_model hash (PipelineVersionCreationModel pipeline_version_creation None None) s7 of
              (Some e, s8) \<Rightarrow> (Some e, s8)
            | (None, s8) \<Rightarrow> (None, s8\<lparr>initialized := True\<rparr>))
      else (None, s\<lparr>warnings := warnings s @ [''Already initialized'']\<rparr>))"

subsection \<open>\<open>update\<close>: branch resolution\<close>

definition last_item :: "'a list \<Rightarrow> error + 'a" where
  "last_item xs = (case xs of [] \<Rightarrow> Inl IndexError | _ \<Rightarrow> Inr (last xs))"

text \<open>
  The first branch of \<^verbatim>\<open>update\<close>: no \<open>PipelineVersion\<close> exists and the translator
  is not initialized.
\<close>

definition create_initial_pipeline_version ::
  "(obj \<Rightarrow> int) \<Rightarrow> datetime \<Rightarrow> state \<Rightarrow>
   (error + PipelineVersion \<times> PipelineVersionRevision option) \<times> state" where
  "create_initial_pipeline_version hash debug_step_datetime s =
     (let pipeline_version = \<lparr>pv_id = 0, pv_parent_pipeline_version_id = None\<rparr>;
          (uuid, s1) = uuid4 s;
          (operators_ref, s2) = new_operator_list [] s1;
          (connections_ref, s3) = new_connection_list [] s2;
          parent_pipeline_version_revision =
            \<lparr>pvr_uuid = uuid, pvr_id = 0, pvr_pipeline_version = pipeline_version,
             pvr_parent_pipeline_version_revision_uuid = None,
             pvr_operators = operators_ref, pvr_connections = connections_ref\<rparr>;
          (uuid', s4) = uuid4 s3;
          pipeline_version_creation =
            \<lparr>pvc_uuid = uuid', pvc_pipeline_version_revision = parent_pipeline_version_revision,
             pvc_parent_pipeline_version_creation_uuid = None, pvc_time = debug_step_datetime\<rparr>;
          s5 = repository_add (R_PipelineVersion pipeline_version) s4;
          s6 = repository_add (R_PipelineVersionRevision parent_pipeline_version_revision) s5;
          s7 = repository_add (R_PipelineVersionCreation pipeline_version_creation) s6
      in case add_model hash (PipelineVersionCreationModel pipeline_version_creation None None) s7 of
           (Some e, s8) \<Rightarrow> (Inl e, s8)
         | (None, s8) \<Rightarrow> (Inr (pipeline_version, Some parent_pipeline_version_revision), s8))"

text \<open>The pipeline version exists: the parent revision by the cached id, or the last one.\<close>

definition find_parent_pipeline_version_revision ::
  "DebugStepData \<Rightarrow> PipelineVersion \<Rightarrow> state \<Rightarrow> error + PipelineVersionRevision option" where
  "find_parent_pipeline_version_revision data pipeline_version s =
     (if last_pipeline_version_id s = ds_branch_id data
      then Inr (get (getattr_PipelineVersionRevision (lists s))
                  (PipelineVersionRevision_list (object_repository s))
                  [(PVR_pipeline_version, value_PipelineVersion pipeline_version),
                   (PVR_id, O_int (last_pipeline_version_revision_id s))])
      else map_sum id Some
             (last_item (list_all_resources (getattr_PipelineVersionRevision (lists s))
                (PipelineVersionRevision_list (object_repository s))
                [(PVR_pipeline_version, value_PipelineVersion pipeline_version)])))"

text \<open>
  The pipeline version does not exist: a new branch is created from the last revision of
  the parent branch, whose two lists the new revision takes over as they are.
\<close>

definition create_pipeline_version ::
  "(obj \<Rightarrow> int) \<Rightarrow> DebugStepData \<Rightarrow> datetime \<Rightarrow> state \<Rightarrow>
   (error + PipelineVersion \<times> PipelineVersionRevision option) \<times> state" where
  "create_pipeline_version hash data debug_step_datetime s =
     (case get getattr_PipelineVersion (PipelineVersion_list (object_repository s))
             [(PV_id, opt_obj O_int (ds_parent_branch_id data))] of
        None \<Rightarrow> (Inl AttributeError, s)
      | Some parent_pipeline_version \<Rightarrow>
         (let pipeline_version =
                \<lparr>pv_id = ds_branch_id data,
                 pv_parent_pipeline_version_id = Some (pv_id parent_pipeline_version)\<rparr>
          in case last_item (list_all_resources (getattr_PipelineVersionRevision (lists s))
                    (PipelineVersionRevision_list (object_repository s))
                    [(PVR_pipeline_version, value_PipelineVersion parent_pipeline_version)]) of
               Inl e \<Rightarrow> (Inl e, s)
             | Inr parent_parent_pipeline_version_revision \<Rightarrow>
                (let (uuid, s1) = uuid4 s;
                     parent_pipeline_version_revision =
                       \<lparr>pvr_uuid = uuid, pvr_id = 0, pvr_pipeline_version = pipeline_version,
                        pvr_parent_pipeline_version_revision_uuid =
                          Some (pvr_uuid parent_parent_pipeline_version_revision),
                        pvr_operators = pvr_operators parent_parent_pipeline_version_revision,
                        pvr_connections = pvr_connections parent_parent_pipeline_version_revision\<rparr>;
                     parent_parent_pipeline_version_creation =
                       get (getattr_PipelineVersionCreation (lists s1))
                         (PipelineVersionCreation_list (object_repository s1))
                         [(PVC_pipeline_version_revision,
                           value_PipelineVersionRevision (lists s1) parent_pipeline_version_revision)];
                     (uuid', s2) = uuid4 s1;
                     pipeline_version_creation =
                       \<lparr>pvc_uuid = uuid',
                        pvc_pipeline_version_revision = parent_pipeline_version_revision,
                        pvc_parent_pipeline_version_creation_uuid =
                          map_option pvc_uuid parent_parent_pipeline_version_creation,
                        pvc_time = debug_step_datetime\<rparr>;
                     s3 = repository_add (R_PipelineVersion pipeline_version) s2;
                     s4 = repository_add (R_PipelineVersionRevision parent_pipeline_version_revision) s3;
                     s5 = repository_add (R_PipelineVersionCreation pipeline_version_creation) s4
                 in case add_model hash
                           (PipelineVersionCreationModel pipeline_version_creation
                              (Some parent_parent_pipeline_version_revision)
                              parent_parent_pipeline_version_creation) s5 of
                      (Some e, s6) \<Rightarrow> (Inl e, s6)
                    | (None, s6) \<Rightarrow>
                        (Inr (pipeline_version, Some parent_pipeline_version_revision), s6))))"

definition resolve_branch ::
  "(obj \<Rightarrow> int) \<Rightarrow> DebugStepData \<Rightarrow> state \<Rightarrow>
   (error + PipelineVersion \<times> PipelineVersionRevision option) \<times> state" where
  "resolve_branch hash data s =
     (if \<not> initialized s
         \<and> list_all_resources getattr_PipelineVersion (PipelineVersion_list (object_repository s)) [] = []
      then create_initial_pipeline_version hash (ds_timestamp data) s
      else case get getattr_PipelineVersion (PipelineVersion_list (object_repository s))
                  [(PV_id, O_int (ds_branch_id data))] of
             Some pipeline_version \<Rightarrow>
               (map_sum id (Pair pipeline_version)
                  (find_parent_pipeline_version_revision data pipeline_version s), s)
           | None \<Rightarrow> create_pipeline_version hash data (ds_timestamp data) s)"

subsection \<open>\<open>update\<close>: change application\<close>

text \<open>
  The list of the parent's recorded changes and its last element, if any; the comparison
  reads the parent revision as it is when the lookup runs.
\<close>

definition find_parent_pipeline_change ::
  "PipelineVersionRevision \<Rightarrow> state \<Rightarrow> PipelineChange option" where
  "find_parent_pipeline_change parent_pipeline_version_revision s =
     (let parent_pipeline_change_list =
            list_all_resources (getattr_PipelineChange (lists s))
              (PipelineChange_list (object_repository s))
              [(PC_pipeline_version_revision,
                value_PipelineVersionRevision (lists s) parent_pipeline_version_revision)]
      in if parent_pipeline_change_list \<noteq> [] then Some (last parent_pipeline_change_list) else None)"

text \<open>
  \<^verbatim>\<open>next(oprev for oprev in ....operators if oprev.operator == operator)\<close> has no
  default: without a match it raises \<open>StopIteration\<close>.
\<close>

definition next_operator_revision ::
  "Operator \<Rightarrow> OperatorRevision list \<Rightarrow> error + OperatorRevision" where
  "next_operator_revision operator xs =
     (case find (\<lambda>oprev. oprev_operator oprev = operator) xs of
        None \<Rightarrow> Inl StopIteration
      | Some oprev \<Rightarrow> Inr oprev)"

text \<open>
  The new revision of a change: the parent's id plus one, the parent's version, and the
  parent's own two list objects.
\<close>

definition new_pipeline_version_revision ::
  "string \<Rightarrow> PipelineVersionRevision \<Rightarrow> PipelineVersionRevision" where
  "new_pipeline_version_revision uuid parent_pipeline_version_revision =
     \<lparr>pvr_uuid = uuid, pvr_id = pvr_id parent_pipeline_version_revision + 1,
      pvr_pipeline_version = pvr_pipeline_version parent_pipeline_version_revision,
      pvr_parent_pipeline_version_revision_uuid = Some (pvr_uuid parent_pipeline_version_revision),
      pvr_operators = pvr_operators parent_pipeline_version_revision,
      pvr_connections = pvr_connections parent_pipeline_version_revision\<rparr>"

text \<open>
  One round of the loop over \<^verbatim>\<open>data.changes\<close>, up to the model it hands to
  \<^verbatim>\<open>add_model\<close>. \<^verbatim>\<open>operators.append\<close>, \<^verbatim>\<open>operators.remove\<close> and
  \<^verbatim>\<open>connections.append\<close> change the parent's list object.
\<close>

fun change_model ::
  "PipelineVersionRevision \<Rightarrow> datetime \<Rightarrow> PipelineChangeData \<Rightarrow> state \<Rightarrow> (error + Model) \<times> state" where
  "change_model parent debug_step_datetime
       (OperatorCreationPipelineChangeData i operator_id operator_name operator_data) s =
     (let operator = \<lparr>op_id = operator_id, op_name = operator_name\<rparr>;
          (operator_revision_uuid, s1) = uuid4 s;
          operator_revision =
            \<lparr>oprev_uuid = operator_revision_uuid, oprev_id = 0, oprev_operator = operator,
             oprev_parameters = map (\<lambda>(key, val). \<lparr>par_name = key, par_value = val\<rparr>) operator_data,
             oprev_parent_operator_revision_uuid = None\<rparr>;
          s2 = set_operator_list (pvr_operators parent)
                 (operators_of (lists s1) parent @ [operator_revision]) s1;
          (uuid, s3) = uuid4 s2;
          pipeline_version_revision = new_pipeline_version_revision uuid parent;
          parent_pipeline_change = find_parent_pipeline_change parent s3;
          (uuid', s4) = uuid4 s3;
          pipeline_change =
            OperatorCreationPipelineChange uuid' debug_step_datetime operator_revision
              pipeline_version_revision (map_option pc_uuid parent_pipeline_change)
      in (Inr (OperatorCreationModel pipeline_change parent_pipeline_change (Some parent)), s4))"
| "change_model parent debug_step_datetime
       (OperatorModificationPipelineChangeData i operator_id operator_name changed_parameter
          changed_value) s =
     (let operator = \<lparr>op_id = operator_id, op_name = operator_name\<rparr>
      in case next_operator_revision operator (operators_of (lists s) parent) of
           Inl e \<Rightarrow> (Inl e, s)
         | Inr parent_operator_revision \<Rightarrow>
            (let parameters =
                   map (\<lambda>parameter. \<lparr>par_name = par_name parameter, par_value = par_value parameter\<rparr>)
                     (filter (\<lambda>parameter. par_name parameter \<noteq> changed_parameter)
                        (oprev_parameters parent_operator_revision))
                   @ [\<lparr>par_name = changed_parameter, par_value = changed_value\<rparr>];
                 (uuid, s1) = uuid4 s;
                 operator_revision =
                   \<lparr>oprev_uuid = uuid, oprev_id = oprev_id parent_operator_revision + 1,
                    oprev_operator = operator, oprev_parameters = parameters,
                    oprev_parent_operator_revision_uuid = Some (oprev_uuid parent_operator_revision)\<rparr>;
                 s2 = set_operator_list (pvr_operators parent)
                        (operators_of (lists s1) parent @ [operator_revision]) s1;
                 (uuid', s3) = uuid4 s2;
                 pipeline_version_revision = new_pipeline_version_revision uuid' parent;
                 parent_pipeline_change = find_parent_pipeline_change parent s3;
                 (uuid'', s4) = uuid4 s3;
                 pipeline_change =
                   OperatorModificationPipelineChange uuid'' debug_step_datetime operator_revision
                     pipeline_version_revision (map_option pc_uuid parent_pipeline_change)
             in (Inr (OperatorModificationModel pipeline_change parent_pipeline_change
                        (Some parent_operator_revision) (Some parent)), s4)))"
| "change_model parent debug_step_datetime
       (OperatorDeletionPipelineChangeData i operator_id operator_name) s =
     (let operator = \<lparr>op_id = operator_id, op_name = operator_name\<rparr>
      in case next_operator_revision operator (operators_of (lists s) parent) of
           Inl e \<Rightarrow> (Inl e, s)
         | Inr operator_revision \<Rightarrow>
            (let s1 = set_operator_list (pvr_operators parent)
                        (remove1 operator_revision (operators_of (lists s) parent)) s;
                 (uuid, s2) = uuid4 s1;
                 pipeline_version_revision = new_pipeline_version_revision uuid parent;
                 parent_pipeline_change = find_parent_pipeline_change parent s2;
                 (uuid', s3) = uuid4 s2;
                 pipeline_change =
                   OperatorDeletionPipelineChange uuid' debug_step_datetime operator_revision
                     pipeline_version_revision (map_option pc_uuid parent_pipeline_change)
             in (Inr (OperatorDeletionModel pipeline_change parent_pipeline_change (Some parent)), s3)))"
| "change_model parent debug_step_datetime
       (ConnectionCreationPipelineChangeData i connection_id from_operator_id to_operator_id
          from_socket_id to_socket_id) s =
     (let connection = \<lparr>con_id = connection_id, con_from_operator_id = from_operator_id,
                        con_to_operator_id = to_operator_id\<rparr>;
          s1 = set_connection_list (pvr_connections parent)
                 (connections_of (lists s) parent @ [connection]) s;
          (uuid, s2) = uuid4 s1;
          pipeline_version_revision = new_pipeline_version_revision uuid parent;
          parent_pipeline_change = find_parent_pipeline_change parent s2;
          (uuid', s3) = uuid4 s2;
          pipeline_change =
            ConnectionCreationPipelineChange uuid' debug_step_datetime connection
              pipeline_version_revision (map_option pc_uuid parent_pipeline_change)
      in (Inr (ConnectionCreationModel pipeline_change parent_pipeline_change (Some parent)), s3))"
| "change_model parent debug_step_datetime
       (ConnectionDeletionPipelineChangeData i connection_id from_operator_id to_operator_id
          from_socket_id to_socket_id) s =
     (let connection = \<lparr>con_id = connection_id, con_from_operator_id = from_operator_id,
                        con_to_operator_id = to_operator_id\<rparr>;
          s1 = set_connection_list (pvr_connections parent)
                 (connections_of (lists s) parent @ [connection]) s;
          (uuid, s2) = uuid4 s1;
          pipeline_version_revision = new_pipeline_version_revision uuid parent;
          parent_pipeline_change = find_parent_pipeline_change parent s2;
          (uuid', s3) = uuid4 s2;
          pipeline_change =
            ConnectionDeletionPipelineChange uuid' debug_step_datetime connection
              pipeline_version_revision (map_option pc_uuid parent_pipeline_change)
      in (Inr (ConnectionDeletionModel pipeline_change parent_pipeline_change (Some parent)), s3))"

definition apply_change ::
  "(obj \<Rightarrow> int) \<Rightarrow> PipelineVersionRevision \<Rightarrow> datetime \<Rightarrow> PipelineChangeData \<Rightarrow> state \<Rightarrow>
   error option \<times> state" where
  "apply_change hash parent debug_step_datetime c s =
     (case change_model parent debug_step_datetime c s of
        (Inl e, s') \<Rightarrow> (Some e, s')
      | (Inr model, s') \<Rightarrow> add_model hash model s')"

text \<open>
  The loop: every round is given the same parent revision, the one that branch
  resolution found; an exception ends the loop.
\<close>

fun apply_changes ::
  "(obj \<Rightarrow> int) \<Rightarrow> PipelineVersionRevision \<Rightarrow> datetime \<Rightarrow> PipelineChangeData list \<Rightarrow> state \<Rightarrow>
   error option \<times> state" where
  "apply_changes hash parent debug_step_datetime [] s = (None, s)"
| "apply_changes hash parent debug_step_datetime (c # cs) s =
     (case apply_change hash parent debug_step_datetime c s of
        (Some e, s') \<Rightarrow> (Some e, s')
      | (None, s') \<Rightarrow> apply_changes hash parent debug_step_datetime cs s')"

subsection \<open>\<open>update\<close>: execution application\<close>

definition execution_model ::
  "PipelineVersionRevision \<Rightarrow> DebugStepData \<Rightarrow> MetricData list \<Rightarrow> state \<Rightarrow>
   (error + Model) \<times> state" where
  "execution_model parent data operator_metrics s =
     (let operator = \<lparr>op_id = ds_operator_id data, op_name = ds_operator_name data\<rparr>
      in case next_operator_revision operator (operators_of (lists s) parent) of
           Inl e \<Rightarrow> (Inl e, s)
         | Inr operator_revision \<Rightarrow>
            (let metrics = map (\<lambda>m. \<lparr>met_name = md_name m, met_value = md_value m\<rparr>) operator_metrics;
                 (uuid, s1) = uuid4 s;
                 operator_run = \<lparr>run_id = uuid, run_created_at = ds_timestamp data,
                                 run_metrics = metrics\<rparr>;
                 (uuid', s2) = uuid4 s1;
                 operator_execution =
                   \<lparr>oe_uuid = uuid', oe_operator_revision = operator_revision,
                    oe_operator_run = operator_run,
                    oe_operator_step_type = ds_operator_step_type data,
                    oe_time = ds_timestamp data\<rparr>
             in (Inr (OperationExecutionModel operator_execution), s2)))"

definition apply_execution ::
  "(obj \<Rightarrow> int) \<Rightarrow> PipelineVersionRevision \<Rightarrow> DebugStepData \<Rightarrow> MetricData list \<Rightarrow> state \<Rightarrow>
   error option \<times> state" where
  "apply_execution hash parent data operator_metrics s =
     (case execution_model parent data operator_metrics s of
        (Inl e, s') \<Rightarrow> (Some e, s')
      | (Inr model, s') \<Rightarrow> add_model hash model s')"

subsection \<open>\<open>update\<close>\<close>

text \<open>
  The result is the exception that ended the call, if any, and the state the call leaves
  behind: Python undoes nothing when an exception passes.
\<close>

definition update :: "(obj \<Rightarrow> int) \<Rightarrow> DebugStepData \<Rightarrow> state \<Rightarrow> error option \<times> state" where
  "update hash data s =
     (case resolve_branch hash data s of
        (Inl e, s1) \<Rightarrow> (Some e, s1)
      | (Inr (pipeline_version, parent_pipeline_version_revision), s1) \<Rightarrow>
         (let s2 = s1\<lparr>last_pipeline_version_id := pv_id pipeline_version\<rparr>
          in case parent_pipeline_version_revision of
               None \<Rightarrow> (Some AttributeError, s2)
             | Some parent \<Rightarrow>
                (let s3 = s2\<lparr>last_pipeline_version_revision_id := pvr_id parent\<rparr>
                 in case (case ds_changes data of
                            None \<Rightarrow> (None, s3)
                          | Some changes \<Rightarrow> apply_changes hash parent (ds_timestamp data) changes s3) of
                      (Some e, s4) \<Rightarrow> (Some e, s4)
                    | (None, s4) \<Rightarrow>
                       (case ds_operator_metrics data of
                          None \<Rightarrow> (None, s4)
                        | Some operator_metrics \<Rightarrow>
                            apply_execution hash parent data operator_metrics s4))))"

section \<open>Observations and example inputs\<close>

definition edge ::
  "ProvElement \<Rightarrow> ProvElement \<Rightarrow> relationship_type \<Rightarrow> (string \<times> obj) list \<Rightarrow> ProvRecord" where
  "edge source target k attributes = last (add_relation source target k attributes [])"

definition appends :: "(ProvDocument \<Rightarrow> ProvDocument) \<Rightarrow> bool" where
  "appends step \<longleftrightarrow> (\<forall>document. step document = document @ step [])"

definition example_operator_execution :: OperatorExecution where
  "example_operator_execution =
     \<lparr>oe_uuid = ''e1'',
      oe_operator_revision =
        \<lparr>oprev_uuid = ''r1'', oprev_id = 0, oprev_operator = \<lparr>op_id = 7, op_name = ''map''\<rparr>,
         oprev_parameters = [\<lparr>par_name = ''lr'', par_value = O_float (PyFloat ''0.1'')\<rparr>],
         oprev_parent_operator_revision_uuid = None\<rparr>,
      oe_operator_run =
        \<lparr>run_id = ''run1'', run_created_at = PyFloat ''5.0'',
         run_metrics = [\<lparr>met_name = ''loss'', met_value = PyFloat ''0.7''\<rparr>]\<rparr>,
      oe_operator_step_type = ON_OP_EXECUTED, oe_time = PyFloat ''5.0''\<rparr>"

definition role_of :: "ProvRecord \<Rightarrow> obj option" where
  "role_of r = (case r of Elem e \<Rightarrow> None | Rel x \<Rightarrow> map_of (rel_attributes x) PROV_ROLE)"

definition has_prov_type :: "prov_record_type \<Rightarrow> ProvRecord \<Rightarrow> bool" where
  "has_prov_type t r = (case r of Elem e \<Rightarrow> el_prov_type e = t | Rel x \<Rightarrow> rel_prov_type x = t)"

fun is_element :: "ProvRecord \<Rightarrow> bool" where
  "is_element (Elem e) = True"
| "is_element (Rel r) = False"

definition example_step_S1 :: DebugStepData where
  "example_step_S1 =
     \<lparr>ds_id = ''step-1'', ds_timestamp = PyFloat ''1.0'', ds_branch_id = 0,
      ds_branch_local_step_id = 0, ds_parent_branch_id = None, ds_operator_id = 1,
      ds_operator_name = ''source'', ds_operator_step_type = ON_OP_EXECUTED,
      ds_operator_metrics = Some [], ds_changes = None\<rparr>"

definition example_world :: InMemoryRepository_world where
  "example_world = snd (new_InMemoryRepository (snd (new_InMemoryRepository
     \<lparr>class_repo = empty_repo, instance_repo = (\<lambda>i. None), instance_count = 0\<rparr>)))"

definition example_initialized :: state where
  "example_initialized =
     snd (initialize (\<lambda>v. 0)
       [OperatorCreationPipelineChangeData ''c1'' 7 ''map'' [(''lr'', O_float (PyFloat ''0.1''))]]
       (new_ProvInspector empty_repo))"

definition example_parent :: PipelineVersionRevision where
  "example_parent =
     \<lparr>pvr_uuid = ''uuid-1'', pvr_id = 0,
      pvr_pipeline_version = \<lparr>pv_id = 0, pv_parent_pipeline_version_id = None\<rparr>,
      pvr_parent_pipeline_version_revision_uuid = None, pvr_operators = 0, pvr_connections = 1\<rparr>"

definition example_operator_revision :: OperatorRevision where
  "example_operator_revision =
     \<lparr>oprev_uuid = ''uuid-0'', oprev_id = 0, oprev_operator = \<lparr>op_id = 7, op_name = ''map''\<rparr>,
      oprev_parameters = [\<lparr>par_name = ''lr'', par_value = O_float (PyFloat ''0.1'')\<rparr>],
      oprev_parent_operator_revision_uuid = None\<rparr>"

definition example_step_modification :: DebugStepData where
  "example_step_modification =
     \<lparr>ds_id = ''step-2'', ds_timestamp = PyFloat ''2.0'', ds_branch_id = 0,
      ds_branch_local_step_id = 1, ds_parent_branch_id = None, ds_operator_id = 7,
      ds_operator_name = ''map'', ds_operator_step_type = ON_OP_EXECUTED,
      ds_operator_metrics = None,
      ds_changes = Some [OperatorModificationPipelineChangeData ''c2'' 8 ''filter'' ''lr''
                           (O_float (PyFloat ''0.2''))]\<rparr>"

definition communication_edges :: "ProvDocument \<Rightarrow> ProvDocument" where
  "communication_edges document = filter (has_prov_type PROV_COMMUNICATION) document"

definition edges_to :: "ProvElement \<Rightarrow> ProvDocument \<Rightarrow> ProvDocument" where
  "edges_to target document =
     filter (\<lambda>r. case r of Elem e \<Rightarrow> False | Rel x \<Rightarrow> rel_target x = el_identifier target) document"

definition with_role :: "string \<Rightarrow> ProvDocument \<Rightarrow> ProvDocument" where
  "with_role role document = filter (\<lambda>r. role_of r = Some (O_str role)) document"

definition revision_ids :: "ProvDocument \<Rightarrow> obj list" where
  "revision_ids document =
     concat (map (\<lambda>r. case r of
                Rel x \<Rightarrow> []
              | Elem e \<Rightarrow>
                  if map_of (el_attributes e) PROV_TYPE = Some (O_str ''PipelineVersionRevision'')
                  then (case map_of (el_attributes e) ''id'' of None \<Rightarrow> [] | Some v \<Rightarrow> [v])
                  else []) document)"

definition example_step_two_changes :: DebugStepData where
  "example_step_two_changes =
     \<lparr>ds_id = ''step-2'', ds_timestamp = PyFloat ''2.0'', ds_branch_id = 0,
      ds_branch_local_step_id = 1, ds_parent_branch_id = None, ds_operator_id = 7,
      ds_operator_name = ''map'', ds_operator_step_type = ON_OP_EXECUTED,
      ds_operator_metrics = None,
      ds_changes = Some [OperatorCreationPipelineChangeData ''c2'' 8 ''filter'' [],
                         ConnectionCreationPipelineChangeData ''c3'' 9 7 8 0 0]\<rparr>"

definition example_step_one_change :: DebugStepData where
  "example_step_one_change =
     \<lparr>ds_id = ''step-3'', ds_timestamp = PyFloat ''3.0'', ds_branch_id = 0,
      ds_branch_local_step_id = 2, ds_parent_branch_id = None, ds_operator_id = 7,
      ds_operator_name = ''map'', ds_operator_step_type = ON_OP_EXECUTED,
      ds_operator_metrics = None,
      ds_changes = Some [ConnectionDeletionPipelineChangeData ''c4'' 9 7 8 0 0]\<rparr>"

definition example_reinitialized :: state where
  "example_reinitialized =
     snd (initialize (\<lambda>v. 0) []
       (snd (update (\<lambda>v. 0) (example_step_S1\<lparr>ds_operator_metrics := None\<rparr>)
          (new_ProvInspector empty_repo))))"

definition example_first_revision :: PipelineVersionRevision where
  "example_first_revision =
     \<lparr>pvr_uuid = ''uuid-0'', pvr_id = 0,
      pvr_pipeline_version = \<lparr>pv_id = 0, pv_parent_pipeline_version_id = None\<rparr>,
      pvr_parent_pipeline_version_revision_uuid = None, pvr_operators = 0, pvr_connections = 1\<rparr>"

definition example_second_revision :: PipelineVersionRevision where
  "example_second_revision =
     \<lparr>pvr_uuid = ''uuid-2'', pvr_id = 0,
      pvr_pipeline_version = \<lparr>pv_id = 0, pv_parent_pipeline_version_id = None\<rparr>,
      pvr_parent_pipeline_version_revision_uuid = None, pvr_operators = 2, pvr_connections = 3\<rparr>"

text \<open>
  Observations on the models and documents of a change: the parent change a model
  carries, the five change models over the same arguments, and the edges of type
  \<^verbatim>\<open>prov:Revision\<close> that leave an element. Three more steps on the initialized
  translator: a new branch whose parent branch is not stored, the deletion of an
  operator that the parent revision does not hold, and an execution of that operator.
\<close>

fun parent_change_of :: "Model \<Rightarrow> PipelineChange option" where
  "parent_change_of (PipelineVersionCreationModel c r p) = None"
| "parent_change_of (OperatorCreationModel c p r) = p"
| "parent_change_of (OperatorModificationModel c p opr r) = p"
| "parent_change_of (OperatorDeletionModel c p r) = p"
| "parent_change_of (ConnectionCreationModel c p r) = p"
| "parent_change_of (ConnectionDeletionModel c p r) = p"
| "parent_change_of (OperationExecutionModel e) = None"

definition change_models ::
  "PipelineChange \<Rightarrow> PipelineChange option \<Rightarrow> OperatorRevision option \<Rightarrow>
   PipelineVersionRevision option \<Rightarrow> Model list" where
  "change_models c parent_change parent_operator_revision parent_revision =
     [OperatorCreationModel c parent_change parent_revision,
      OperatorModificationModel c parent_change parent_operator_revision parent_revision,
      OperatorDeletionModel c parent_change parent_revision,
      ConnectionCreationModel c parent_change parent_revision,
      ConnectionDeletionModel c parent_change parent_revision]"

definition revision_edges_from :: "ProvElement \<Rightarrow> ProvDocument \<Rightarrow> ProvDocument" where
  "revision_edges_from source document =
     filter (\<lambda>r. case r of
                Elem e \<Rightarrow> False
              | Rel x \<Rightarrow> rel_source x = el_identifier source
                         \<and> (PROV_TYPE, PROV_Revision) \<in> set (rel_attributes x)) document"

definition example_step_unknown_parent :: DebugStepData where
  "example_step_unknown_parent =
     \<lparr>ds_id = ''step-2'', ds_timestamp = PyFloat ''2.0'', ds_branch_id = 5,
      ds_branch_local_step_id = 0, ds_parent_branch_id = Some 9, ds_operator_id = 7,
      ds_operator_name = ''map'', ds_operator_step_type = ON_OP_EXECUTED,
      ds_operator_metrics = None, ds_changes = None\<rparr>"

definition example_step_deletion :: DebugStepData where
  "example_step_deletion =
     \<lparr>ds_id = ''step-2'', ds_timestamp = PyFloat ''2.0'', ds_branch_id = 0,
      ds_branch_local_step_id = 1, ds_parent_branch_id = None, ds_operator_id = 7,
      ds_operator_name = ''map'', ds_operator_step_type = ON_OP_EXECUTED,
      ds_operator_metrics = None,
      ds_changes = Some [OperatorDeletionPipelineChangeData ''c2'' 8 ''filter'']\<rparr>"

definition example_step_execution :: DebugStepData where
  "example_step_execution =
     \<lparr>ds_id = ''step-2'', ds_timestamp = PyFloat ''2.0'', ds_branch_id = 0,
      ds_branch_local_step_id = 1, ds_parent_branch_id = None, ds_operator_id = 8,
      ds_operator_name = ''filter'', ds_operator_step_type = ON_OP_EXECUTED,
      ds_operator_metrics = Some [], ds_changes = None\<rparr>"


section \<open>Properties\<close>

lemma add_relation_edge: "add_relation source target k attributes document = document @ [edge source target k attributes]"
  by (simp add: add_relation_def edge_def)

lemma appends_add_element [simp]: "appends (add_element e False)"
  by (simp add: appends_def add_element_def)

lemma appends_add_relation [simp]: "appends (add_relation a b k attrs)"
  by (simp add: appends_def add_relation_def)

lemma add_element_empty [simp]: "add_element e False [] = [Elem e]"
  by (simp add: add_element_def)

lemma add_relation_empty [simp]: "add_relation a b k attrs [] = [edge a b k attrs]"
  by (simp add: add_relation_edge)

lemma to_prov_type [simp]:
  "el_prov_type (PipelineVersion_to_prov a) = PROV_ENTITY"
  "el_prov_type (PipelineVersionRevision_to_prov b) = PROV_ENTITY"
  "el_prov_type (Operator_to_prov c) = PROV_ENTITY"
  "el_prov_type (OperatorRevision_to_prov d) = PROV_ENTITY"
  "el_prov_type (Parameter_to_prov hash e) = PROV_ENTITY"
  "el_prov_type (OperatorRun_to_prov f) = PROV_ENTITY"
  "el_prov_type (Metric_to_prov g) = PROV_ENTITY"
  "el_prov_type (Connection_to_prov h) = PROV_ENTITY"
  "el_prov_type (PipelineVersionCreation_to_prov i) = PROV_ACTIVITY"
  "el_prov_type (PipelineChange_to_prov j) = PROV_ACTIVITY"
  "el_prov_type (OperatorExecution_to_prov k) = PROV_ACTIVITY"
  by (simp_all add: PipelineVersion_to_prov_def PipelineVersionRevision_to_prov_def
      Operator_to_prov_def OperatorRevision_to_prov_def Parameter_to_prov_def
      OperatorRun_to_prov_def Metric_to_prov_def Connection_to_prov_def
      PipelineVersionCreation_to_prov_def PipelineChange_to_prov_def OperatorExecution_to_prov_def)

lemma fold_appends:
  "list_all appends steps \<Longrightarrow>
   fold (\<lambda>step document. step document) steps document = document @ concat (map (\<lambda>step. step []) steps)"
proof (induction steps arbitrary: document)
  case Nil
  then show ?case by simp
next
  case (Cons step steps)
  from Cons.prems have a: "appends step" and b: "list_all appends steps" by simp_all
  from a have e: "step document = document @ step []" unfolding appends_def by blast
  have "fold (\<lambda>step document. step document) (step # steps) document
          = step document @ concat (map (\<lambda>step. step []) steps)"
    using Cons.IH [OF b] by simp
  also have "\<dots> = (document @ step []) @ concat (map (\<lambda>step. step []) steps)"
    by (subst e) (rule refl)
  finally show ?case by simp
qed

lemma run_steps_appends:
  "list_all appends steps \<Longrightarrow> run_steps steps = concat (map (\<lambda>step. step []) steps)"
  by (simp add: run_steps_def fold_appends)

lemma list_all_appends_concat_map:
  "(\<And>x. list_all appends (f x)) \<Longrightarrow> list_all appends (concat (map f xs))"
  by (induction xs) simp_all

lemma steps_concat_map:
  "concat (map (\<lambda>step. step []) (concat (map f xs)))
     = concat (map (\<lambda>x. concat (map (\<lambda>step. step []) (f x))) xs)"
  by (induction xs) simp_all

lemma parameter_steps_appends [simp]: "list_all appends (parameter_steps hash r)"
  unfolding parameter_steps_def by (rule list_all_appends_concat_map) simp

lemma build_OperationExecutionModel_records:
  "build_OperationExecutionModel hash e =
     [Elem (OperatorExecution_to_prov e)]
     @ concat (map (\<lambda>p. [Elem (Parameter_to_prov hash p),
          edge (OperatorRevision_to_prov (oe_operator_revision e)) (Parameter_to_prov hash p) ProvMembership []])
        (oprev_parameters (oe_operator_revision e)))
     @ [Elem (OperatorRevision_to_prov (oe_operator_revision e)),
        edge (OperatorExecution_to_prov e) (OperatorRevision_to_prov (oe_operator_revision e)) ProvUsage
          (time_role (oe_time e) USED_OPERATOR_REVISION),
        Elem (OperatorRun_to_prov (oe_operator_run e)),
        edge (OperatorRun_to_prov (oe_operator_run e)) (OperatorExecution_to_prov e) ProvGeneration
          (time_role (oe_time e) CREATED_OPERATOR_RUN)]
     @ concat (map (\<lambda>m. [Elem (Metric_to_prov m),
          edge (OperatorRun_to_prov (oe_operator_run e)) (Metric_to_prov m) ProvMembership [],
          edge (OperatorRevision_to_prov (oe_operator_revision e)) (Metric_to_prov m) ProvMembership []])
        (run_metrics (oe_operator_run e)))"
proof -
  have m: "list_all appends (concat (map (\<lambda>metric.
                [add_element (Metric_to_prov metric) False,
                 add_relation (OperatorRun_to_prov (oe_operator_run e)) (Metric_to_prov metric)
                   ProvMembership [],
                 add_relation (OperatorRevision_to_prov (oe_operator_revision e)) (Metric_to_prov metric)
                   ProvMembership []])
              (run_metrics (oe_operator_run e))))"
    by (rule list_all_appends_concat_map) simp
  show ?thesis
    unfolding build_OperationExecutionModel_def Let_def
    apply (subst run_steps_appends)
     apply (simp add: m)
    apply (simp add: parameter_steps_def steps_concat_map)
    done
qed

lemma edge_eq:
  "edge source target k attributes =
     Rel \<lparr>rel_prov_type = prov_type k,
          rel_identifier =
            (if k = ProvSpecialization \<or> k = ProvMembership then None
             else Some \<lparr>qn_namespace = DEFAULT_NAMESPACE,
                        qn_localpart = ''relation:'' @ str_QualifiedName (el_identifier source)
                          @ '':'' @ str_QualifiedName (el_identifier target)\<rparr>),
          rel_source = el_identifier source,
          rel_target = el_identifier target,
          rel_attributes = attributes @ (if k = ProvRevision then [(PROV_TYPE, PROV_Revision)] else [])\<rparr>"
  by (simp add: edge_def add_relation_def)

subsection \<open>The edges \<open>add_relation\<close> emits\<close>

text \<open>
  Claim C7: for every call to \<open>add_relation\<close> the edge appended to the document has the
  identifier \<^verbatim>\<open>relation:<source identifier>:<target identifier>\<close> (a name in the
  namespace \<open>ex\<close>), built from the printed PROV identifiers of the two endpoints, except
  for specialization and membership, whose edge has no identifier; and the edge carries
  the caller's attributes, followed by the PROV type \<open>Revision\<close> exactly when the relation
  is \<open>ProvRevision\<close>.
\<close>

theorem add_relation_identifier:
  "\<exists>r. add_relation source target k attributes document = document @ [Rel r]
     \<and> rel_identifier r =
         (if k = ProvSpecialization \<or> k = ProvMembership then None
          else Some \<lparr>qn_namespace = DEFAULT_NAMESPACE,
                     qn_localpart = ''relation:'' @ str_QualifiedName (el_identifier source)
                       @ '':'' @ str_QualifiedName (el_identifier target)\<rparr>)
     \<and> rel_attributes r = attributes @ (if k = ProvRevision then [(PROV_TYPE, PROV_Revision)] else [])
     \<and> ((PROV_TYPE, PROV_Revision) \<in> set (rel_attributes r))
         = (k = ProvRevision \<or> (PROV_TYPE, PROV_Revision) \<in> set attributes)"
  by (auto simp add: add_relation_def)

theorem add_relation_identifier_witness:
  "\<exists>r. add_relation (PipelineVersion_to_prov \<lparr>pv_id = 1, pv_parent_pipeline_version_id = Some 0\<rparr>)
          (PipelineVersion_to_prov \<lparr>pv_id = 0, pv_parent_pipeline_version_id = None\<rparr>)
          ProvDerivation [] [] = [Rel r]
     \<and> rel_identifier r =
          Some \<lparr>qn_namespace = \<lparr>ns_prefix = ''ex'', ns_uri = ''example.org''\<rparr>,
                qn_localpart = ''relation:PipelineVersion?id=1:PipelineVersion?id=0''\<rparr>
     \<and> rel_attributes r = []"
  using add_relation_identifier
    [of "PipelineVersion_to_prov \<lparr>pv_id = 1, pv_parent_pipeline_version_id = Some 0\<rparr>"
        "PipelineVersion_to_prov \<lparr>pv_id = 0, pv_parent_pipeline_version_id = None\<rparr>"
        ProvDerivation "[]" "[]"]
  by (auto simp add: PipelineVersion_to_prov_def qualified_name_def str_QualifiedName_def
      DEFAULT_NAMESPACE_def quote_plus_def quote_char_def always_safe_def str_int_def
      str_nat.simps digit_char_def)

subsection \<open>The fragment of an operator execution\<close>

text \<open>
  The role the execution builder gives the generation edge of the run is the value of
  the constant \<open>CREATED_OPERATOR_RUN\<close>, which is \<^verbatim>\<open>AddedOperatorRun\<close>, not
  \<^verbatim>\<open>CreatedOperatorRun\<close>: the only generation edge of the example's fragment.
\<close>

theorem OperationExecutionModel_role_counterexample:
  "map role_of (filter (has_prov_type PROV_GENERATION)
          (build_OperationExecutionModel (\<lambda>v. 0) example_operator_execution))
     = [Some (O_str ''AddedOperatorRun'')]
   \<and> O_str ''AddedOperatorRun'' \<noteq> O_str ''CreatedOperatorRun''"
  by (simp add: build_OperationExecutionModel_records example_operator_execution_def edge_eq
      role_of_def has_prov_type_def time_role_def PROV_ROLE_def PROV_ATTR_TIME_def
      CREATED_OPERATOR_RUN_def)

text \<open>
  Claim C8, with the role as the code has it: the fragment of the execution builder
  contains the execution activity; a usage edge from the activity to the operator
  revision with role \<^verbatim>\<open>UsedOperatorRevision\<close>; the operator revision, and each of its
  parameters with a membership edge from the revision; the operator run with a generation
  edge to the activity whose role is the string \<^verbatim>\<open>AddedOperatorRun\<close>; and for each
  metric the metric, a membership edge from the run and a membership edge from the
  revision. It contains nothing else: five records, two for each parameter and three for
  each metric.
\<close>

theorem OperationExecutionModel_fragment:
  "(let document = build_OperationExecutionModel hash e;
        execution = OperatorExecution_to_prov e;
        revision = OperatorRevision_to_prov (oe_operator_revision e);
        run = OperatorRun_to_prov (oe_operator_run e)
    in Elem execution \<in> set document
     \<and> edge execution revision ProvUsage
         [(PROV_ATTR_TIME, O_datetime (oe_time e)), (PROV_ROLE, O_str ''UsedOperatorRevision'')]
         \<in> set document
     \<and> Elem revision \<in> set document
     \<and> (\<forall>p \<in> set (oprev_parameters (oe_operator_revision e)).
            Elem (Parameter_to_prov hash p) \<in> set document
          \<and> edge revision (Parameter_to_prov hash p) ProvMembership [] \<in> set document)
     \<and> Elem run \<in> set document
     \<and> edge run execution ProvGeneration
         [(PROV_ATTR_TIME, O_datetime (oe_time e)), (PROV_ROLE, O_str ''AddedOperatorRun'')]
         \<in> set document
     \<and> (\<forall>m \<in> set (run_metrics (oe_operator_run e)).
            Elem (Metric_to_prov m) \<in> set document
          \<and> edge run (Metric_to_prov m) ProvMembership [] \<in> set document
          \<and> edge revision (Metric_to_prov m) ProvMembership [] \<in> set document)
     \<and> length document
         = 5 + 2 * length (oprev_parameters (oe_operator_revision e))
             + 3 * length (run_metrics (oe_operator_run e)))"
proof -
  have len: "length (concat (map (\<lambda>x. [f x, g x]) xs)) = 2 * length xs" for f g :: "'a \<Rightarrow> ProvRecord" and xs
    by (induction xs) simp_all
  have len3: "length (concat (map (\<lambda>x. [f x, g x, h x]) xs)) = 3 * length xs"
    for f g h :: "'a \<Rightarrow> ProvRecord" and xs
    by (induction xs) simp_all
  show ?thesis
    unfolding Let_def build_OperationExecutionModel_records
    by (simp add: time_role_def USED_OPERATOR_REVISION_def CREATED_OPERATOR_RUN_def len len3)
      blast
qed

theorem OperationExecutionModel_fragment_witness:
  "edge (OperatorRun_to_prov (oe_operator_run example_operator_execution))
      (Metric_to_prov \<lparr>met_name = ''loss'', met_value = PyFloat ''0.7''\<rparr>) ProvMembership []
     \<in> set (build_OperationExecutionModel (\<lambda>v. 0) example_operator_execution)
   \<and> edge (OperatorRevision_to_prov (oe_operator_revision example_operator_execution))
      (Metric_to_prov \<lparr>met_name = ''loss'', met_value = PyFloat ''0.7''\<rparr>) ProvMembership []
     \<in> set (build_OperationExecutionModel (\<lambda>v. 0) example_operator_execution)
   \<and> length (build_OperationExecutionModel (\<lambda>v. 0) example_operator_execution) = 10"
  using OperationExecutionModel_fragment [of "\<lambda>v. 0" example_operator_execution]
  by (simp add: Let_def example_operator_execution_def)

subsection \<open>A second \<open>initialize\<close>\<close>

text \<open>
  Claim C6: \<open>initialize\<close> on a translator that is already initialized raises nothing,
  issues the warning \<^verbatim>\<open>Already initialized\<close> and changes no state: the repository,
  the flag, the two cached ids, the database, the heap of lists and the uuid supply are
  what they were.
\<close>

theorem initialize_already_initialized:
  "initialized s \<Longrightarrow>
   (\<exists>s'. initialize hash data s = (None, s')
      \<and> warnings s' = warnings s @ [''Already initialized'']
      \<and> object_repository s' = object_repository s
      \<and> initialized s' = initialized s
      \<and> last_pipeline_version_id s' = last_pipeline_version_id s
      \<and> last_pipeline_version_revision_id s' = last_pipeline_version_revision_id s
      \<and> provenance_database s' = provenance_database s
      \<and> lists s' = lists s
      \<and> uuid_count s' = uuid_count s)"
  by (simp add: initialize_def)

lemmas run_defs =
  update_def new_ProvInspector_def resolve_branch_def empty_repo_def
  list_all_resources_def create_initial_pipeline_version_def uuid4_def new_operator_list_def
  new_connection_list_def repository_add_def add_model_def build_PipelineVersionCreationModel_def
  Let_def apply_execution_def execution_model_def next_operator_revision_def operators_of_def
  connections_of_def initialize_def INITIAL_PIPELINE_VERSION_ID_def
  INITIAL_PIPELINE_VERSION_REVISION_ID_def run_steps_def

theorem initialize_already_initialized_witness:
  "initialized (snd (initialize (\<lambda>v. 0) [] (new_ProvInspector empty_repo)))
   \<and> fst (initialize (\<lambda>v. 0) [OperatorDeletionPipelineChangeData ''c1'' 7 ''map'']
         (snd (initialize (\<lambda>v. 0) [] (new_ProvInspector empty_repo)))) = None
   \<and> object_repository (snd (initialize (\<lambda>v. 0) [OperatorDeletionPipelineChangeData ''c1'' 7 ''map'']
         (snd (initialize (\<lambda>v. 0) [] (new_ProvInspector empty_repo)))))
       = object_repository (snd (initialize (\<lambda>v. 0) [] (new_ProvInspector empty_repo)))
   \<and> warnings (snd (initialize (\<lambda>v. 0) [OperatorDeletionPipelineChangeData ''c1'' 7 ''map'']
         (snd (initialize (\<lambda>v. 0) [] (new_ProvInspector empty_repo)))))
       = [''Already initialized'']"
proof -
  have i: "initialized (snd (initialize (\<lambda>v. 0) [] (new_ProvInspector empty_repo)))"
    by (simp add: run_defs)
  have w: "warnings (snd (initialize (\<lambda>v. 0) [] (new_ProvInspector empty_repo))) = []"
    by (simp add: run_defs)
  from initialize_already_initialized [OF i, of "\<lambda>v. 0" "[OperatorDeletionPipelineChangeData ''c1'' 7 ''map'']"]
  show ?thesis using i w by auto
qed

subsection \<open>The repository\<close>

lemma change_self_repo_plain:
  "instance_repo w i = None \<Longrightarrow> instance_repo w j = None \<Longrightarrow>
   self_repo (change_self_repo f i w) j = f (self_repo w j)"
  by (simp add: change_self_repo_def self_repo_def)

lemma get_None_iff:
  "get ga rs filters = None \<longleftrightarrow> (\<forall>r \<in> set rs. \<not> matches ga filters r)"
  by (auto simp add: get_def find_None_iff)

lemma get_Some_first:
  "get ga rs filters = Some r \<Longrightarrow>
   \<exists>ys zs. rs = ys @ r # zs \<and> matches ga filters r \<and> (\<forall>y \<in> set ys. \<not> matches ga filters y)"
  unfolding get_def find_Some_iff
  by (metis id_take_nth_drop in_set_conv_nth length_take min.absorb2 nat_less_le nth_take)

lemma matches_iff: "matches ga filters r \<longleftrightarrow> (\<forall>(key, val) \<in> set filters. ga r key = val)"
  by (simp add: matches_def list_all_iff)

text \<open>
  Claim C10: two instances of \<open>InMemoryRepository\<close> (instances as the constructor makes
  them, without an attribute \<open>repo\<close> of their own) see one store. What instance \<open>j\<close>
  reads after \<open>add\<close> on instance \<open>i\<close> is what it read before with the resource appended
  to the list of its type, so \<open>list_all\<close> on \<open>j\<close> ends with it; after \<open>clear\<close> on \<open>i\<close>
  instance \<open>j\<close> reads the empty store; neither method gives an instance a store of its
  own. \<open>get\<close> returns \<open>None\<close> exactly when no resource of the type has all the named
  attributes equal to the given values, and otherwise the first such resource in insertion
  order.
\<close>

theorem InMemoryRepository_shared_store:
  assumes "instance_repo w i = None" and "instance_repo w j = None"
  shows "self_repo (InMemoryRepository_add i x w) j = add x (self_repo w j)
    \<and> InMemoryRepository_list_all (InMemoryRepository_add i (R_PipelineVersion a) w) j
          PipelineVersion_list ga [] = PipelineVersion_list (self_repo w j) @ [a]
    \<and> InMemoryRepository_list_all (InMemoryRepository_add i (R_PipelineVersionRevision b) w) j
          PipelineVersionRevision_list gb [] = PipelineVersionRevision_list (self_repo w j) @ [b]
    \<and> InMemoryRepository_list_all (InMemoryRepository_add i (R_PipelineVersionCreation c) w) j
          PipelineVersionCreation_list gc [] = PipelineVersionCreation_list (self_repo w j) @ [c]
    \<and> InMemoryRepository_list_all (InMemoryRepository_add i (R_PipelineChange d) w) j
          PipelineChange_list gd [] = PipelineChange_list (self_repo w j) @ [d]
    \<and> self_repo (InMemoryRepository_clear i w) j = empty_repo
    \<and> instance_repo (InMemoryRepository_add i x w) = instance_repo w
    \<and> instance_repo (InMemoryRepository_clear i w) = instance_repo w
    \<and> (InMemoryRepository_get w j resource_type getattr filters = None
         \<longleftrightarrow> (\<forall>r \<in> set (resource_type (self_repo w j)). \<not> (\<forall>(key, val) \<in> set filters. getattr r key = val)))
    \<and> (\<forall>r. InMemoryRepository_get w j resource_type getattr filters = Some r \<longrightarrow>
          (\<exists>ys zs. resource_type (self_repo w j) = ys @ r # zs
             \<and> (\<forall>(key, val) \<in> set filters. getattr r key = val)
             \<and> (\<forall>y \<in> set ys. \<not> (\<forall>(key, val) \<in> set filters. getattr y key = val))))"
proof -
  have sh: "self_repo (change_self_repo f i w) j = f (self_repo w j)" for f
    using assms by (rule change_self_repo_plain)
  have ir: "instance_repo (change_self_repo f i w) = instance_repo w" for f
    using assms(1) by (simp add: change_self_repo_def)
  show ?thesis
    apply (intro conjI)
            apply (simp add: InMemoryRepository_add_def sh)
           apply (simp add: InMemoryRepository_add_def InMemoryRepository_list_all_def sh list_all_resources_def matches_def)
          apply (simp add: InMemoryRepository_add_def InMemoryRepository_list_all_def sh list_all_resources_def matches_def)
         apply (simp add: InMemoryRepository_add_def InMemoryRepository_list_all_def sh list_all_resources_def matches_def)
        apply (simp add: InMemoryRepository_add_def InMemoryRepository_list_all_def sh list_all_resources_def matches_def)
       apply (simp add: InMemoryRepository_clear_def sh clear_repo_def)
      apply (simp add: InMemoryRepository_add_def ir)
     apply (simp add: InMemoryRepository_clear_def ir)
    apply (simp add: InMemoryRepository_get_def get_None_iff matches_iff)
    apply (clarify)
    apply (simp add: InMemoryRepository_get_def)
    apply (drule get_Some_first)
    apply (simp add: matches_iff)
    done
qed

theorem InMemoryRepository_shared_store_witness:
  "instance_repo example_world 0 = None \<and> instance_repo example_world 1 = None
   \<and> InMemoryRepository_get
        (InMemoryRepository_add 0
           (R_PipelineVersion \<lparr>pv_id = 0, pv_parent_pipeline_version_id = None\<rparr>) example_world)
        1 PipelineVersion_list getattr_PipelineVersion [(PV_id, O_int 0)]
       = Some \<lparr>pv_id = 0, pv_parent_pipeline_version_id = None\<rparr>
   \<and> InMemoryRepository_list_all
        (InMemoryRepository_clear 1
           (InMemoryRepository_add 0
              (R_PipelineVersion \<lparr>pv_id = 0, pv_parent_pipeline_version_id = None\<rparr>) example_world))
        0 PipelineVersion_list getattr_PipelineVersion [] = []"
proof -
  have p: "instance_repo example_world 0 = None" "instance_repo example_world 1 = None"
    by (simp_all add: example_world_def new_InMemoryRepository_def)
  have c: "self_repo example_world 1 = empty_repo"
    by (simp add: example_world_def new_InMemoryRepository_def self_repo_def)
  note t = InMemoryRepository_shared_store [OF p, THEN conjunct1,
      of "R_PipelineVersion \<lparr>pv_id = 0, pv_parent_pipeline_version_id = None\<rparr>"]
  have a: "self_repo (InMemoryRepository_add 0
      (R_PipelineVersion \<lparr>pv_id = 0, pv_parent_pipeline_version_id = None\<rparr>) example_world) 1
      = add (R_PipelineVersion \<lparr>pv_id = 0, pv_parent_pipeline_version_id = None\<rparr>) empty_repo"
    using t c by simp
  have b: "self_repo (InMemoryRepository_clear 1 (InMemoryRepository_add 0
      (R_PipelineVersion \<lparr>pv_id = 0, pv_parent_pipeline_version_id = None\<rparr>) example_world)) 0
      = empty_repo"
    using p by (simp add: InMemoryRepository_clear_def InMemoryRepository_add_def
        change_self_repo_def self_repo_def clear_repo_def)
  show ?thesis
    using p a b
    by (simp add: InMemoryRepository_get_def InMemoryRepository_list_all_def get_def
        list_all_resources_def matches_def empty_repo_def)
qed

subsection \<open>The first update of an uninitialized translator\<close>

lemma genesis_document:
  "operators_of h (pvc_pipeline_version_revision c) = [] \<Longrightarrow>
   connections_of h (pvc_pipeline_version_revision c) = [] \<Longrightarrow>
   build_PipelineVersionCreationModel h c None None =
     Inr [Elem (PipelineVersionCreation_to_prov c),
          Elem (PipelineVersionRevision_to_prov (pvc_pipeline_version_revision c)),
          edge (PipelineVersionRevision_to_prov (pvc_pipeline_version_revision c))
            (PipelineVersionCreation_to_prov c) ProvGeneration
            (time_role (pvc_time c) CREATED_PIPELINE_VERSION_REVISION),
          Elem (PipelineVersion_to_prov (pvr_pipeline_version (pvc_pipeline_version_revision c))),
          edge (PipelineVersionRevision_to_prov (pvc_pipeline_version_revision c))
            (PipelineVersion_to_prov (pvr_pipeline_version (pvc_pipeline_version_revision c)))
            ProvSpecialization [],
          edge (PipelineVersion_to_prov (pvr_pipeline_version (pvc_pipeline_version_revision c)))
            (PipelineVersionCreation_to_prov c) ProvGeneration
            (time_role (pvc_time c) CREATED_PIPELINE_VERSION)]"
  by (simp add: build_PipelineVersionCreationModel_def Let_def run_steps_def add_element_def
      add_relation_edge)

text \<open>
  Scenario S1 as the specification words it (no \<open>initialize\<close>, one step on branch 0
  without parent branch and without changes, \<open>metrics = []\<close>): the fragment has three
  elements and three edges, not two, and the call ends in \<open>StopIteration\<close>, because an
  empty metrics list is not \<open>None\<close> and the empty first revision has no operator for
  \<^verbatim>\<open>next\<close> to find.
\<close>

theorem minimal_genesis_counterexample:
  "fst (update (\<lambda>v. 0) example_step_S1 (new_ProvInspector empty_repo)) = Some StopIteration
   \<and> map (\<lambda>document. (length (filter is_element document),
                       length (filter (\<lambda>r. \<not> is_element r) document)))
       (provenance_database (snd (update (\<lambda>v. 0) example_step_S1 (new_ProvInspector empty_repo))))
     = [(3, 3)]"
  by (simp add: run_defs example_step_S1_def add_element_def add_relation_edge edge_eq)

text \<open>
  Claim C9, as the code has it: the first update of an uninitialized translator whose
  repository holds no pipeline version, for a step without changes, imports one document
  of exactly three elements (the creation, the empty revision with id 0, the version with
  id 0 and no parent) and exactly three edges (the generation of the revision by the
  creation, the specialization of the version by the revision, the generation of the
  version by the creation). The call returns without an exception when the step has no
  metrics (\<open>None\<close>); with a metrics list, also an empty one, it ends in
  \<open>StopIteration\<close> after the document was imported.
\<close>

theorem minimal_genesis:
  assumes "\<not> initialized s" and "PipelineVersion_list (object_repository s) = []"
    and "ds_changes data = None"
  shows "\<exists>c document.
      provenance_database (snd (update hash data s)) = provenance_database s @ [document]
    \<and> PipelineVersionCreation_list (object_repository (snd (update hash data s)))
        = PipelineVersionCreation_list (object_repository s) @ [c]
    \<and> pvr_id (pvc_pipeline_version_revision c) = 0
    \<and> pvr_pipeline_version (pvc_pipeline_version_revision c)
        = \<lparr>pv_id = 0, pv_parent_pipeline_version_id = None\<rparr>
    \<and> operators_of (lists (snd (update hash data s))) (pvc_pipeline_version_revision c) = []
    \<and> connections_of (lists (snd (update hash data s))) (pvc_pipeline_version_revision c) = []
    \<and> document =
         [Elem (PipelineVersionCreation_to_prov c),
          Elem (PipelineVersionRevision_to_prov (pvc_pipeline_version_revision c)),
          edge (PipelineVersionRevision_to_prov (pvc_pipeline_version_revision c))
            (PipelineVersionCreation_to_prov c) ProvGeneration
            [(PROV_ATTR_TIME, O_datetime (ds_timestamp data)),
             (PROV_ROLE, O_str ''CreatedPipelineVersionRevision'')],
          Elem (PipelineVersion_to_prov \<lparr>pv_id = 0, pv_parent_pipeline_version_id = None\<rparr>),
          edge (PipelineVersionRevision_to_prov (pvc_pipeline_version_revision c))
            (PipelineVersion_to_prov \<lparr>pv_id = 0, pv_parent_pipeline_version_id = None\<rparr>)
            ProvSpecialization [],
          edge (PipelineVersion_to_prov \<lparr>pv_id = 0, pv_parent_pipeline_version_id = None\<rparr>)
            (PipelineVersionCreation_to_prov c) ProvGeneration
            [(PROV_ATTR_TIME, O_datetime (ds_timestamp data)),
             (PROV_ROLE, O_str ''CreatedPipelineVersion'')]]
    \<and> length (filter is_element document) = 3
    \<and> length (filter (\<lambda>r. \<not> is_element r) document) = 3
    \<and> fst (update hash data s)
        = (case ds_operator_metrics data of None \<Rightarrow> None | Some metrics \<Rightarrow> Some StopIteration)"
  using assms
  by (cases "ds_operator_metrics data")
    (simp_all add: update_def resolve_branch_def list_all_resources_def
      create_initial_pipeline_version_def uuid4_def new_operator_list_def
      new_connection_list_def repository_add_def add_model_def genesis_document
      Let_def apply_execution_def execution_model_def next_operator_revision_def operators_of_def
      connections_of_def time_role_def CREATED_PIPELINE_VERSION_REVISION_def
      CREATED_PIPELINE_VERSION_def edge_eq)


theorem minimal_genesis_witness:
  "fst (update (\<lambda>v. 0) (example_step_S1\<lparr>ds_operator_metrics := None\<rparr>)
      (new_ProvInspector empty_repo)) = None
   \<and> length (provenance_database (snd (update (\<lambda>v. 0)
      (example_step_S1\<lparr>ds_operator_metrics := None\<rparr>) (new_ProvInspector empty_repo)))) = 1"
  using minimal_genesis [of "new_ProvInspector empty_repo"
      "example_step_S1\<lparr>ds_operator_metrics := None\<rparr>" "\<lambda>v. 0"]
  by (auto simp add: new_ProvInspector_def empty_repo_def example_step_S1_def)
subsection \<open>The change loop\<close>

lemma example_initialized_facts:
  "PipelineVersionRevision_list (object_repository example_initialized) = [example_parent]"
  "operators_of (lists example_initialized) example_parent = [example_operator_revision]"
  "connections_of (lists example_initialized) example_parent = []"
  "initialized example_initialized"
  "PipelineVersion_list (object_repository example_initialized)
     = [\<lparr>pv_id = 0, pv_parent_pipeline_version_id = None\<rparr>]"
  "PipelineChange_list (object_repository example_initialized) = []"
  "last_pipeline_version_id example_initialized = 0"
  "last_pipeline_version_revision_id example_initialized = 0"
  by (simp_all add: example_initialized_def example_parent_def example_operator_revision_def
      run_defs str_nat.simps digit_char_def)

lemma lists_uuid4 [simp]: "lists (snd (uuid4 s)) = lists s"
  by (simp add: uuid4_def)

lemma operators_of_set_operator_list [simp]:
  "operators_of (lists (set_operator_list r xs s)) p
     = (if pvr_operators p = r then xs else operators_of (lists s) p)"
  by (simp add: set_operator_list_def operators_of_def)

lemma connections_of_set_operator_list [simp]:
  "connections_of (lists (set_operator_list r xs s)) p = connections_of (lists s) p"
  by (simp add: set_operator_list_def connections_of_def)

lemma connections_of_set_connection_list [simp]:
  "connections_of (lists (set_connection_list r xs s)) p
     = (if pvr_connections p = r then xs else connections_of (lists s) p)"
  by (simp add: set_connection_list_def connections_of_def)

lemma operators_of_set_connection_list [simp]:
  "operators_of (lists (set_connection_list r xs s)) p = operators_of (lists s) p"
  by (simp add: set_connection_list_def operators_of_def)

lemma new_pipeline_version_revision_simps [simp]:
  "pvr_uuid (new_pipeline_version_revision u p) = u"
  "pvr_id (new_pipeline_version_revision u p) = pvr_id p + 1"
  "pvr_pipeline_version (new_pipeline_version_revision u p) = pvr_pipeline_version p"
  "pvr_parent_pipeline_version_revision_uuid (new_pipeline_version_revision u p) = Some (pvr_uuid p)"
  "pvr_operators (new_pipeline_version_revision u p) = pvr_operators p"
  "pvr_connections (new_pipeline_version_revision u p) = pvr_connections p"
  by (simp_all add: new_pipeline_version_revision_def)

lemma operators_of_new_revision [simp]:
  "operators_of h (new_pipeline_version_revision u p) = operators_of h p"
  "connections_of h (new_pipeline_version_revision u p) = connections_of h p"
  by (simp_all add: operators_of_def connections_of_def)

lemma change_payload_simps [simp]:
  "pc_operator_revision (OperatorCreationPipelineChange u t r v p) = Some r"
  "pc_operator_revision (OperatorModificationPipelineChange u t r v p) = Some r"
  "pc_operator_revision (OperatorDeletionPipelineChange u t r v p) = Some r"
  "pc_connection (ConnectionCreationPipelineChange u t c v p) = Some c"
  "pc_connection (ConnectionDeletionPipelineChange u t c v p) = Some c"
  "pc_pipeline_version_revision (OperatorCreationPipelineChange u t r v p) = v"
  "pc_pipeline_version_revision (OperatorModificationPipelineChange u t r v p) = v"
  "pc_pipeline_version_revision (OperatorDeletionPipelineChange u t r v p) = v"
  "pc_pipeline_version_revision (ConnectionCreationPipelineChange u t c v p) = v"
  "pc_pipeline_version_revision (ConnectionDeletionPipelineChange u t c v p) = v"
  by (simp_all add: OperatorCreationPipelineChange_def OperatorModificationPipelineChange_def
      OperatorDeletionPipelineChange_def ConnectionCreationPipelineChange_def
      ConnectionDeletionPipelineChange_def)



lemma example_parent_simps [simp]:
  "pvr_id example_parent = 0"
  "pvr_uuid example_parent = ''uuid-1''"
  "pvr_pipeline_version example_parent = \<lparr>pv_id = 0, pv_parent_pipeline_version_id = None\<rparr>"
  "pvr_operators example_parent = 0"
  "pvr_connections example_parent = 1"
  by (simp_all add: example_parent_def)

lemma example_resolve_branch:
  "ds_branch_id data = 0 \<Longrightarrow>
   resolve_branch hash data example_initialized
     = (Inr (\<lparr>pv_id = 0, pv_parent_pipeline_version_id = None\<rparr>, Some example_parent),
        example_initialized)"
  by (simp add: resolve_branch_def example_initialized_facts get_def matches_def
      find_parent_pipeline_version_revision_def)

subsection \<open>Lookups without a match\<close>

text \<open>
  A modification of an operator that the parent revision does not hold: the translator
  holds operator 7, the step modifies operator 8. The call ends in \<open>StopIteration\<close> and
  no fragment is imported; nothing is handed to a builder.
\<close>

theorem missing_operator_counterexample:
  "fst (update (\<lambda>v. 0) example_step_modification example_initialized) = Some StopIteration
   \<and> length (provenance_database (snd (update (\<lambda>v. 0) example_step_modification example_initialized)))
       = length (provenance_database example_initialized)"
  by (simp add: update_def example_resolve_branch example_step_modification_def apply_change_def
      example_initialized_facts next_operator_revision_def example_operator_revision_def Let_def)

lemma pipeline_change_steps_appends [simp]: "list_all appends (pipeline_change_steps c p)"
  by (simp add: pipeline_change_steps_def split: option.splits)

lemma pipeline_version_revision_steps_appends [simp]:
  "list_all appends (pipeline_version_revision_steps h c p)"
proof -
  have a: "list_all appends (concat (map (\<lambda>operator_revision.
              [add_element (OperatorRevision_to_prov operator_revision) False,
               add_relation x (OperatorRevision_to_prov operator_revision) ProvMembership []]) xs))"
    for x xs
    by (rule list_all_appends_concat_map) simp
  have b: "list_all appends (concat (map (\<lambda>connection.
              [add_element (Connection_to_prov connection) False,
               add_relation x (Connection_to_prov connection) ProvMembership []]) xs))"
    for x xs
    by (rule list_all_appends_concat_map) simp
  show ?thesis
    by (simp add: pipeline_version_revision_steps_def Let_def a b split: option.splits)
qed

lemma has_prov_type_edge [simp]: "has_prov_type t (edge a b k attrs) = (prov_type k = t)"
  by (simp add: has_prov_type_def edge_eq)

lemma has_prov_type_Elem [simp]: "has_prov_type t (Elem e) = (el_prov_type e = t)"
  by (simp add: has_prov_type_def)

lemma filter_concat_map_empty:
  "(\<And>x. filter P (f x) = []) \<Longrightarrow> filter P (concat (map f xs)) = []"
  by (induction xs) simp_all

lemma communication_pipeline_version_revision_steps [simp]:
  "filter (has_prov_type PROV_COMMUNICATION)
     (concat (map (\<lambda>step. step []) (pipeline_version_revision_steps h c p))) = []"
  by (simp add: pipeline_version_revision_steps_def Let_def steps_concat_map
      filter_concat_map_empty split: option.splits)

lemma communication_parameter_steps [simp]:
  "filter (has_prov_type PROV_COMMUNICATION)
     (concat (map (\<lambda>step. step []) (parameter_steps hash r))) = []"
  by (simp add: parameter_steps_def steps_concat_map filter_concat_map_empty)

lemma role_of_edge [simp]: "role_of (edge a b k attrs) = map_of attrs PROV_ROLE"
  by (cases "map_of attrs PROV_ROLE")
    (simp_all add: role_of_def edge_eq map_add_def PROV_ROLE_def PROV_TYPE_def)

lemma role_of_Elem [simp]: "role_of (Elem e) = None"
  by (simp add: role_of_def)

lemma role_time_role [simp]: "map_of (time_role t role) PROV_ROLE = Some (O_str role)"
  by (simp add: time_role_def PROV_ROLE_def PROV_ATTR_TIME_def)

lemma with_role_pipeline_version_revision_steps [simp]:
  "filter (\<lambda>r. role_of r = Some (O_str ''UsedParentOperatorRevision''))
     (concat (map (\<lambda>step. step []) (pipeline_version_revision_steps h c p))) = []"
  by (simp add: pipeline_version_revision_steps_def Let_def steps_concat_map
      filter_concat_map_empty CREATED_PIPELINE_VERSION_REVISION_def
      USED_PARENT_PIPELINE_VERSION_REVISION_def split: option.splits)

lemma with_role_parameter_steps [simp]:
  "filter (\<lambda>r. role_of r = Some (O_str ''UsedParentOperatorRevision''))
     (concat (map (\<lambda>step. step []) (parameter_steps hash r))) = []"
  by (simp add: parameter_steps_def steps_concat_map filter_concat_map_empty)

lemma with_role_pipeline_change_steps [simp]:
  "filter (\<lambda>r. role_of r = Some (O_str ''UsedParentOperatorRevision''))
     (concat (map (\<lambda>step. step []) (pipeline_change_steps c p))) = []"
  by (simp add: pipeline_change_steps_def split: option.splits)

lemma missing_parent_branch:
  assumes "get getattr_PipelineVersion (PipelineVersion_list (object_repository s))
             [(PV_id, O_int (ds_branch_id data))] = None"
    and "get getattr_PipelineVersion (PipelineVersion_list (object_repository s))
             [(PV_id, opt_obj O_int (ds_parent_branch_id data))] = None"
    and "initialized s \<or> PipelineVersion_list (object_repository s) \<noteq> []"
  shows "update hash data s = (Some AttributeError, s)"
  using assms
  by (auto simp add: update_def resolve_branch_def create_pipeline_version_def
      list_all_resources_def matches_def)

subsection \<open>Sequence ids of the revisions a step creates\<close>

text \<open>
  \<open>revision_ids\<close> reads, from an imported fragment, the sequence ids of its
  \<open>PipelineVersionRevision\<close> entities in the order the builder added them: for the
  fragment of a change, the new revision and then its parent.
\<close>

lemma revision_ids_append [simp]: "revision_ids (a @ b) = revision_ids a @ revision_ids b"
  by (simp add: revision_ids_def)

lemma revision_ids_Nil [simp]: "revision_ids [] = []"
  by (simp add: revision_ids_def)

lemma revision_ids_edge [simp]: "revision_ids (edge a b k attrs # d) = revision_ids d"
  by (simp add: revision_ids_def edge_eq)

lemma revision_ids_revision [simp]:
  "revision_ids (Elem (PipelineVersionRevision_to_prov r) # d) = O_int (pvr_id r) # revision_ids d"
  by (simp add: revision_ids_def PipelineVersionRevision_to_prov_def PROV_TYPE_def)

lemma revision_ids_other [simp]:
  "revision_ids (Elem (PipelineVersion_to_prov a) # d) = revision_ids d"
  "revision_ids (Elem (Operator_to_prov c) # d) = revision_ids d"
  "revision_ids (Elem (OperatorRevision_to_prov e) # d) = revision_ids d"
  "revision_ids (Elem (Parameter_to_prov hash f) # d) = revision_ids d"
  "revision_ids (Elem (Connection_to_prov g) # d) = revision_ids d"
  "revision_ids (Elem (PipelineVersionCreation_to_prov i) # d) = revision_ids d"
  "revision_ids (Elem (PipelineChange_to_prov j) # d) = revision_ids d"
  by (simp_all add: revision_ids_def PipelineVersion_to_prov_def Operator_to_prov_def
      OperatorRevision_to_prov_def Parameter_to_prov_def Connection_to_prov_def
      PipelineVersionCreation_to_prov_def PipelineChange_to_prov_def PROV_TYPE_def
      PROV_ATTR_STARTTIME_def PROV_ATTR_ENDTIME_def)

lemma revision_ids_concat_map_empty:
  "(\<And>x. revision_ids (f x) = []) \<Longrightarrow> revision_ids (concat (map f xs)) = []"
  by (induction xs) simp_all

lemma revision_ids_pipeline_version_revision_steps [simp]:
  "revision_ids (concat (map (\<lambda>step. step []) (pipeline_version_revision_steps h c (Some p))))
     = [O_int (pvr_id (pc_pipeline_version_revision c)), O_int (pvr_id p)]"
  by (simp add: pipeline_version_revision_steps_def Let_def steps_concat_map
      revision_ids_concat_map_empty)

lemma revision_ids_parameter_steps [simp]:
  "revision_ids (concat (map (\<lambda>step. step []) (parameter_steps hash r))) = []"
  by (simp add: parameter_steps_def steps_concat_map revision_ids_concat_map_empty)

lemma revision_ids_pipeline_change_steps [simp]:
  "revision_ids (concat (map (\<lambda>step. step []) (pipeline_change_steps c p))) = []"
  by (simp add: pipeline_change_steps_def split: option.splits)

text \<open>
  Every change of a step is given the parent that branch resolution found, so every
  fragment of the step shows a new revision with the parent's id plus one next to that
  same parent; and no change adds its revision to the repository.
\<close>

lemma change_model_revision:
  assumes "change_model parent t c s = (Inr m, s')"
  shows "\<exists>document. build hash (lists s') m = Inr document
     \<and> revision_ids document = [O_int (pvr_id parent + 1), O_int (pvr_id parent)]"
proof (cases c)
  case (OperatorCreationPipelineChangeData x11 x12 x13 x14)
  with assms show ?thesis
    by (auto simp add: Let_def split_def build_OperatorCreationModel_def run_steps_appends)
next
  case (OperatorModificationPipelineChangeData x21 x22 x23 x24 x25)
  with assms show ?thesis
    by (auto simp add: Let_def split_def build_OperatorModificationModel_def run_steps_appends
        split: sum.splits option.splits)
next
  case (OperatorDeletionPipelineChangeData x31 x32 x33)
  with assms show ?thesis
    by (auto simp add: Let_def split_def build_OperatorDeletionModel_def run_steps_appends
        split: sum.splits)
next
  case (ConnectionCreationPipelineChangeData x41 x42 x43 x44 x45 x46)
  with assms show ?thesis
    by (auto simp add: Let_def split_def build_ConnectionCreationModel_def run_steps_appends)
next
  case (ConnectionDeletionPipelineChangeData x51 x52 x53 x54 x55 x56)
  with assms show ?thesis
    by (auto simp add: Let_def split_def build_ConnectionDeletionModel_def run_steps_appends)
qed

lemma change_model_repository:
  "change_model parent t c s = (r, s') \<Longrightarrow>
   object_repository s' = object_repository s \<and> provenance_database s' = provenance_database s
   \<and> initialized s' = initialized s
   \<and> last_pipeline_version_id s' = last_pipeline_version_id s
   \<and> last_pipeline_version_revision_id s' = last_pipeline_version_revision_id s"
  by (cases c)
    (auto simp add: Let_def split_def uuid4_def set_operator_list_def set_connection_list_def
      split: sum.splits)

lemma apply_change_ok:
  assumes "apply_change hash parent t c s = (None, s')"
  shows "object_repository s' = object_repository s
    \<and> map revision_ids (provenance_database s')
        = map revision_ids (provenance_database s)
            @ [[O_int (pvr_id parent + 1), O_int (pvr_id parent)]]"
proof -
  obtain r s1 where c: "change_model parent t c s = (r, s1)" by (cases "change_model parent t c s")
  with assms obtain m where r: "r = Inr m" and a: "add_model hash m s1 = (None, s')"
    by (cases r) (auto simp add: apply_change_def)
  from change_model_revision [OF c [unfolded r], of hash] obtain document where
    d: "build hash (lists s1) m = Inr document"
      "revision_ids document = [O_int (pvr_id parent + 1), O_int (pvr_id parent)]"
    by blast
  from a d have "s' = s1\<lparr>provenance_database := provenance_database s1 @ [document]\<rparr>"
    by (simp add: add_model_def)
  with d change_model_repository [OF c] show ?thesis by simp
qed

lemma apply_changes_same_sequence_id:
  "apply_changes hash parent t cs s = (None, s') \<Longrightarrow>
   object_repository s' = object_repository s
   \<and> map revision_ids (provenance_database s')
       = map revision_ids (provenance_database s)
           @ replicate (length cs) [O_int (pvr_id parent + 1), O_int (pvr_id parent)]"
proof (induction cs arbitrary: s)
  case Nil
  then show ?case by simp
next
  case (Cons c cs)
  obtain e s1 where a: "apply_change hash parent t c s = (e, s1)"
    by (cases "apply_change hash parent t c s")
  with Cons.prems have e: "e = None" and r: "apply_changes hash parent t cs s1 = (None, s')"
    by (cases e; simp)+
  from apply_change_ok [OF a [unfolded e]] Cons.IH [OF r] show ?case
    by (simp add: replicate_append_same)
qed

lemma update_existing_branch:
  assumes "resolve_branch hash data s = (Inr (pv, Some parent), s)"
    and "ds_changes data = Some changes" and "ds_operator_metrics data = None"
  shows "update hash data s
     = apply_changes hash parent (ds_timestamp data) changes
         (s\<lparr>last_pipeline_version_id := pv_id pv,
            last_pipeline_version_revision_id := pvr_id parent\<rparr>)"
  using assms
  by (cases "apply_changes hash parent (ds_timestamp data) changes
         (s\<lparr>last_pipeline_version_id := pv_id pv,
            last_pipeline_version_revision_id := pvr_id parent\<rparr>)")
    (auto simp add: update_def split: option.splits)

lemma example_two_changes_ok:
  "fst (update (\<lambda>v. 0) example_step_two_changes example_initialized) = None"
  by (simp add: update_def example_resolve_branch example_step_two_changes_def apply_change_def
      example_initialized_facts Let_def split_def add_model_def build_OperatorCreationModel_def
      build_ConnectionCreationModel_def)

lemma example_reinitialized_facts:
  "PipelineVersionRevision_list (object_repository example_reinitialized)
     = [example_first_revision, example_second_revision]"
  "PipelineVersion_list (object_repository example_reinitialized)
     = [\<lparr>pv_id = 0, pv_parent_pipeline_version_id = None\<rparr>,
        \<lparr>pv_id = 0, pv_parent_pipeline_version_id = None\<rparr>]"
  "initialized example_reinitialized"
  "last_pipeline_version_id example_reinitialized = 0"
  "last_pipeline_version_revision_id example_reinitialized = 0"
  by (simp_all add: example_reinitialized_def example_first_revision_def
      example_second_revision_def example_step_S1_def run_defs str_nat.simps digit_char_def
      add_element_def add_relation_edge)

subsection \<open>The parent revision of an update\<close>

text \<open>
  A run outside the intended order: an update of an uninitialized translator, then
  \<open>initialize\<close> on the store that this update filled, then an update on branch 0. The
  repository holds two revisions of branch 0, both with id 0. The branch is the cached
  one, so the parent is fetched by the cached id and is the first of them, while the
  last inserted revision of the branch is the second.
\<close>

lemma out_of_order_cached_revision:
  "resolve_branch (\<lambda>v. 0) example_step_S1 example_reinitialized
     = (Inr (\<lparr>pv_id = 0, pv_parent_pipeline_version_id = None\<rparr>, Some example_first_revision),
        example_reinitialized)
   \<and> last (list_all_resources (getattr_PipelineVersionRevision (lists example_reinitialized))
        (PipelineVersionRevision_list (object_repository example_reinitialized))
        [(PVR_pipeline_version,
          value_PipelineVersion \<lparr>pv_id = 0, pv_parent_pipeline_version_id = None\<rparr>)])
     = example_second_revision
   \<and> example_first_revision \<noteq> example_second_revision"
  by (simp add: resolve_branch_def example_reinitialized_facts get_def matches_def
      list_all_resources_def find_parent_pipeline_version_revision_def example_step_S1_def)
    (simp add: example_first_revision_def example_second_revision_def)

lemma find_filter_Cons: "filter P xs = y # ys \<Longrightarrow> find P xs = Some y"
  by (induction xs) (auto split: if_splits)

lemma find_filter_conj: "find P (filter Q xs) = find (\<lambda>x. Q x \<and> P x) xs"
  by (induction xs) auto

text \<open>
  Branch resolution in any state. When the step's branch names a stored pipeline
  version, \<open>update\<close> leaves the state as it is during branch resolution and resolves the
  parent revision as follows, where the revisions of the branch are the stored revisions
  whose pipeline version equals the stored version, in insertion order. If the branch is
  not the cached one, the parent is the last of them (\<open>IndexError\<close> if there is none). If
  the branch is the cached one, the parent is the first of them whose id is the cached
  revision id (\<open>None\<close> if there is none). The two agree when the most recent revision is
  the only revision of the branch that carries the cached id.
\<close>

lemma resolve_branch_existing:
  assumes "get getattr_PipelineVersion (PipelineVersion_list (object_repository s))
             [(PV_id, O_int (ds_branch_id data))] = Some pv"
  shows "(let revisions = list_all_resources (getattr_PipelineVersionRevision (lists s))
               (PipelineVersionRevision_list (object_repository s))
               [(PVR_pipeline_version, value_PipelineVersion pv)]
     in (last_pipeline_version_id s \<noteq> ds_branch_id data \<longrightarrow>
           resolve_branch hash data s
             = (if revisions = [] then Inl IndexError else Inr (pv, Some (last revisions)), s))
      \<and> (last_pipeline_version_id s = ds_branch_id data \<longrightarrow>
           resolve_branch hash data s
             = (Inr (pv, find (\<lambda>r. pvr_id r = last_pipeline_version_revision_id s) revisions), s))
      \<and> (last_pipeline_version_id s = ds_branch_id data
          \<and> revisions \<noteq> []
          \<and> filter (\<lambda>r. pvr_id r = last_pipeline_version_revision_id s) revisions = [last revisions]
          \<longrightarrow> resolve_branch hash data s = (Inr (pv, Some (last revisions)), s)))"
proof -
  from assms have ne: "PipelineVersion_list (object_repository s) \<noteq> []"
    by (auto simp add: get_def)
  have f: "get (getattr_PipelineVersionRevision (lists s))
        (PipelineVersionRevision_list (object_repository s))
        [(PVR_pipeline_version, value_PipelineVersion pv),
         (PVR_id, O_int (last_pipeline_version_revision_id s))]
     = find (\<lambda>r. pvr_id r = last_pipeline_version_revision_id s)
         (list_all_resources (getattr_PipelineVersionRevision (lists s))
            (PipelineVersionRevision_list (object_repository s))
            [(PVR_pipeline_version, value_PipelineVersion pv)])"
    by (simp add: get_def list_all_resources_def find_filter_conj matches_def [abs_def])
  show ?thesis
    unfolding Let_def
    using assms ne
    by (auto simp add: resolve_branch_def find_parent_pipeline_version_revision_def f
        list_all_resources_def [of getattr_PipelineVersion] matches_def [abs_def] last_item_def
        find_filter_Cons split: list.splits)
qed


lemma example_database:
  "map revision_ids (provenance_database example_initialized) = [[O_int 0]]"
  by (simp add: example_initialized_def run_defs add_element_def add_relation_edge)

lemma apply_changes_frame:
  "apply_changes hash parent t cs s = (r, s') \<Longrightarrow>
   object_repository s' = object_repository s \<and> initialized s' = initialized s
   \<and> last_pipeline_version_id s' = last_pipeline_version_id s
   \<and> last_pipeline_version_revision_id s' = last_pipeline_version_revision_id s"
proof (induction cs arbitrary: s)
  case Nil
  then show ?case by auto
next
  case (Cons c cs)
  obtain x s1 where c: "change_model parent t c s = (x, s1)"
    by (cases "change_model parent t c s")
  obtain e s2 where a: "apply_change hash parent t c s = (e, s2)"
    by (cases "apply_change hash parent t c s")
  from a c have "object_repository s2 = object_repository s1 \<and> initialized s2 = initialized s1
      \<and> last_pipeline_version_id s2 = last_pipeline_version_id s1
      \<and> last_pipeline_version_revision_id s2 = last_pipeline_version_revision_id s1"
    by (cases x) (auto simp add: apply_change_def add_model_def split: sum.splits)
  with change_model_repository [OF c] have f: "object_repository s2 = object_repository s
      \<and> initialized s2 = initialized s
      \<and> last_pipeline_version_id s2 = last_pipeline_version_id s
      \<and> last_pipeline_version_revision_id s2 = last_pipeline_version_revision_id s"
    by simp
  show ?case
  proof (cases e)
    case None
    with Cons.prems a have "apply_changes hash parent t cs s2 = (r, s')" by simp
    from Cons.IH [OF this] f show ?thesis by simp
  next
    case (Some err)
    with Cons.prems a have "s' = s2" by simp
    with f show ?thesis by simp
  qed
qed

lemma example_resolve_branch_again:
  assumes "object_repository s = object_repository example_initialized" and "initialized s"
    and "last_pipeline_version_id s = 0" and "last_pipeline_version_revision_id s = 0"
    and "ds_branch_id data = 0"
  shows "resolve_branch hash data s
     = (Inr (\<lparr>pv_id = 0, pv_parent_pipeline_version_id = None\<rparr>, Some example_parent), s)"
  using assms
  by (simp add: resolve_branch_def example_initialized_facts get_def matches_def
      find_parent_pipeline_version_revision_def)

text \<open>
  Claim C2 at a step with two changes (an operator creation and a connection creation)
  on the initialized translator, followed by a step with one change: all three new
  revisions have sequence id 1 and parent id 0, where the claim has 1, 2 and 3. The
  repository holds the first revision only, before and after.
\<close>

theorem changes_share_sequence_id:
  "fst (update (\<lambda>v. 0) example_step_two_changes example_initialized) = None
   \<and> map revision_ids (provenance_database
        (snd (update (\<lambda>v. 0) example_step_two_changes example_initialized)))
       = [[O_int 0], [O_int 1, O_int 0], [O_int 1, O_int 0]]
   \<and> PipelineVersionRevision_list (object_repository
        (snd (update (\<lambda>v. 0) example_step_two_changes example_initialized)))
       = [example_parent]
   \<and> fst (update (\<lambda>v. 0) example_step_one_change
        (snd (update (\<lambda>v. 0) example_step_two_changes example_initialized))) = None
   \<and> map revision_ids (provenance_database
        (snd (update (\<lambda>v. 0) example_step_one_change
           (snd (update (\<lambda>v. 0) example_step_two_changes example_initialized)))))
       = [[O_int 0], [O_int 1, O_int 0], [O_int 1, O_int 0], [O_int 1, O_int 0]]"
proof -
  let ?s0 = "example_initialized\<lparr>last_pipeline_version_id := 0,
      last_pipeline_version_revision_id := 0\<rparr>"
  let ?cs = "[OperatorCreationPipelineChangeData ''c2'' 8 ''filter'' [],
      ConnectionCreationPipelineChangeData ''c3'' 9 7 8 0 0]"
  obtain s1 where u1: "update (\<lambda>v. 0) example_step_two_changes example_initialized = (None, s1)"
    using example_two_changes_ok
    by (cases "update (\<lambda>v. 0) example_step_two_changes example_initialized") simp
  have r1: "resolve_branch (\<lambda>v. 0) example_step_two_changes example_initialized
      = (Inr (\<lparr>pv_id = 0, pv_parent_pipeline_version_id = None\<rparr>, Some example_parent),
         example_initialized)"
    by (rule example_resolve_branch) (simp add: example_step_two_changes_def)
  have a1: "apply_changes (\<lambda>v. 0) example_parent (PyFloat ''2.0'') ?cs ?s0 = (None, s1)"
    using update_existing_branch [OF r1, of ?cs] u1 by (simp add: example_step_two_changes_def)
  note i1 = apply_changes_same_sequence_id [OF a1] apply_changes_frame [OF a1]
  have d1: "map revision_ids (provenance_database s1)
      = [[O_int 0], [O_int 1, O_int 0], [O_int 1, O_int 0]]"
    using i1(1) by (simp add: example_database)
  have p1: "PipelineVersionRevision_list (object_repository s1) = [example_parent]"
    using i1(1) by (simp add: example_initialized_facts)
  have r2: "resolve_branch (\<lambda>v. 0) example_step_one_change s1
      = (Inr (\<lparr>pv_id = 0, pv_parent_pipeline_version_id = None\<rparr>, Some example_parent), s1)"
    using i1(2) by (intro example_resolve_branch_again)
      (simp_all add: example_initialized_facts example_step_one_change_def)
  let ?s2 = "s1\<lparr>last_pipeline_version_id := 0, last_pipeline_version_revision_id := 0\<rparr>"
  let ?ds = "[ConnectionDeletionPipelineChangeData ''c4'' 9 7 8 0 0]"
  obtain s3 where a2: "apply_changes (\<lambda>v. 0) example_parent (PyFloat ''3.0'') ?ds ?s2 = (None, s3)"
    by (simp add: apply_change_def Let_def split_def add_model_def build_ConnectionDeletionModel_def)
  have u2: "update (\<lambda>v. 0) example_step_one_change s1 = (None, s3)"
    using update_existing_branch [OF r2, of ?ds] a2 by (simp add: example_step_one_change_def)
  have d2: "map revision_ids (provenance_database s3)
      = [[O_int 0], [O_int 1, O_int 0], [O_int 1, O_int 0], [O_int 1, O_int 0]]"
    using apply_changes_same_sequence_id [OF a2] d1 by simp
  show ?thesis using u1 d1 p1 u2 d2 by simp
qed

lemma uuid4_frame [simp]:
  "object_repository (snd (uuid4 s)) = object_repository s"
  "provenance_database (snd (uuid4 s)) = provenance_database s"
  by (simp_all add: uuid4_def)

lemma set_list_frame [simp]:
  "object_repository (set_operator_list r xs s) = object_repository s"
  "object_repository (set_connection_list r ys s) = object_repository s"
  "provenance_database (set_operator_list r xs s) = provenance_database s"
  "provenance_database (set_connection_list r ys s) = provenance_database s"
  by (simp_all add: set_operator_list_def set_connection_list_def)

text \<open>
  Claim C3 at the same step: the stored first revision of branch 0 held one operator
  revision and no connection before the update; after it, the same stored record holds
  two operator revisions and one connection.
\<close>

theorem parent_revision_mutated:
  "operators_of (lists example_initialized) example_parent = [example_operator_revision]
   \<and> connections_of (lists example_initialized) example_parent = []
   \<and> PipelineVersionRevision_list (object_repository example_initialized) = [example_parent]
   \<and> PipelineVersionRevision_list (object_repository
        (snd (update (\<lambda>v. 0) example_step_two_changes example_initialized))) = [example_parent]
   \<and> map oprev_operator (operators_of (lists
        (snd (update (\<lambda>v. 0) example_step_two_changes example_initialized))) example_parent)
       = [\<lparr>op_id = 7, op_name = ''map''\<rparr>, \<lparr>op_id = 8, op_name = ''filter''\<rparr>]
   \<and> connections_of (lists
        (snd (update (\<lambda>v. 0) example_step_two_changes example_initialized))) example_parent
       = [\<lparr>con_id = 9, con_from_operator_id = 7, con_to_operator_id = 8\<rparr>]"
  by (simp add: update_def example_resolve_branch example_step_two_changes_def apply_change_def
      example_initialized_facts Let_def split_def add_model_def build_OperatorCreationModel_def
      build_ConnectionCreationModel_def example_operator_revision_def)

section \<open>The object store in runs in the intended order\<close>

text \<open>
  \<open>update\<close> stores a revision only when it creates a branch, so along a run in the
  intended order each stored pipeline version has exactly one stored revision, of
  sequence id 0. In such a state the parent revision that \<open>update\<close> resolves for an
  existing branch is that one revision, by the cached id and by the last position alike
  (\<open>in_order_parent_revision\<close>).
\<close>

lemma value_PipelineVersion_inj [simp]:
  "value_PipelineVersion a = value_PipelineVersion b \<longleftrightarrow> a = b"
proof
  assume e: "value_PipelineVersion a = value_PipelineVersion b"
  then have "pv_id a = pv_id b" by (simp add: value_PipelineVersion_def)
  moreover from e have "pv_parent_pipeline_version_id a = pv_parent_pipeline_version_id b"
    by (cases "pv_parent_pipeline_version_id a"; cases "pv_parent_pipeline_version_id b")
      (simp_all add: value_PipelineVersion_def)
  ultimately show "a = b" by simp
qed simp










lemma add_model_snd [simp]:
  "object_repository (snd (add_model hash m s)) = object_repository s"
  "last_pipeline_version_revision_id (snd (add_model hash m s))
     = last_pipeline_version_revision_id s"
  by (simp_all add: add_model_def split: sum.splits)

lemma uuid4_snd [simp]:
  "last_pipeline_version_revision_id (snd (uuid4 s)) = last_pipeline_version_revision_id s"
  by (simp add: uuid4_def)

lemma repository_add_sel [simp]:
  "object_repository (repository_add x s) = add x (object_repository s)"
  "last_pipeline_version_revision_id (repository_add x s) = last_pipeline_version_revision_id s"
  by (simp_all add: repository_add_def)



lemma apply_changes_snd [simp]:
  "object_repository (snd (apply_changes hash parent t cs s)) = object_repository s"
  "last_pipeline_version_revision_id (snd (apply_changes hash parent t cs s))
     = last_pipeline_version_revision_id s"
  using apply_changes_frame [of hash parent t cs s "fst (apply_changes hash parent t cs s)"
      "snd (apply_changes hash parent t cs s)"]
  by simp_all

lemma apply_execution_snd [simp]:
  "object_repository (snd (apply_execution hash parent data metrics s)) = object_repository s"
  "last_pipeline_version_revision_id (snd (apply_execution hash parent data metrics s))
     = last_pipeline_version_revision_id s"
  by (simp_all add: apply_execution_def execution_model_def Let_def split_def
      split: sum.splits option.splits)









section \<open>Lookups without a match in \<open>update\<close>\<close>

lemma pipeline_change_steps_records:
  "concat (map (\<lambda>step. step []) (pipeline_change_steps c None)) = [Elem (PipelineChange_to_prov c)]"
  "concat (map (\<lambda>step. step []) (pipeline_change_steps c (Some ppc)))
     = [Elem (PipelineChange_to_prov c), Elem (PipelineChange_to_prov ppc),
        edge (PipelineChange_to_prov c) (PipelineChange_to_prov ppc) ProvCommunication []]"
  by (simp_all add: pipeline_change_steps_def)

lemma appends_parent_operator_revision [simp]:
  "list_all appends (case por of None \<Rightarrow> [] | Some parent_revision \<Rightarrow>
      [add_element (f parent_revision) False, add_relation a (g parent_revision) k attrs,
       add_relation a' (g' parent_revision) k' attrs'])"
  by (cases por) simp_all

lemma communication_parent_operator_revision [simp]:
  "filter (has_prov_type PROV_COMMUNICATION)
     (concat (map (\<lambda>step. step []) (case por of None \<Rightarrow> [] | Some parent_revision \<Rightarrow>
      [add_element (OperatorRevision_to_prov parent_revision) False,
       add_relation a (g parent_revision) ProvRevision attrs,
       add_relation a' (g' parent_revision) ProvUsage attrs']))) = []"
  by (cases por) simp_all

lemma change_builders_parent_change:
  "list_all2 (\<lambda>with_parent without_parent.
       case with_parent of
         Inl e \<Rightarrow> without_parent = Inl e
       | Inr document \<Rightarrow>
           (\<exists>rest. document = Elem (PipelineChange_to_prov c) # Elem (PipelineChange_to_prov ppc)
                      # edge (PipelineChange_to_prov c) (PipelineChange_to_prov ppc)
                          ProvCommunication [] # rest
                 \<and> without_parent = Inr (Elem (PipelineChange_to_prov c) # rest)
                 \<and> communication_edges (Elem (PipelineChange_to_prov c) # rest) = []))
     (map (build hash h) (change_models c (Some ppc) por p))
     (map (build hash h) (change_models c None por p))"
  by (simp add: change_models_def build_OperatorCreationModel_def
      build_OperatorModificationModel_def build_OperatorDeletionModel_def
      build_ConnectionCreationModel_def build_ConnectionDeletionModel_def
      run_steps_appends pipeline_change_steps_records communication_edges_def
      split: option.splits)

lemma revision_edge_edge [simp]:
  "(case edge a b k attrs of
      Elem e \<Rightarrow> False
    | Rel x \<Rightarrow> rel_source x = i \<and> (PROV_TYPE, PROV_Revision) \<in> set (rel_attributes x))
   = (el_identifier a = i \<and> ((PROV_TYPE, PROV_Revision) \<in> set attrs \<or> k = ProvRevision))"
  by (auto simp add: edge_eq)

lemma time_role_no_type [simp]: "(PROV_TYPE, v) \<notin> set (time_role t role)"
  by (simp add: time_role_def PROV_TYPE_def PROV_ATTR_TIME_def PROV_ROLE_def)

lemma revision_identifier_distinct [simp]:
  "el_identifier (PipelineVersionRevision_to_prov x) \<noteq> el_identifier (OperatorRevision_to_prov r)"
  "el_identifier (PipelineChange_to_prov c) \<noteq> el_identifier (OperatorRevision_to_prov r)"
  by (simp_all add: PipelineVersionRevision_to_prov_def OperatorRevision_to_prov_def
      PipelineChange_to_prov_def qualified_name_def)

lemma revision_edges_from_pipeline_version_revision_steps [simp]:
  "filter (\<lambda>r. case r of
                Elem e \<Rightarrow> False
              | Rel x \<Rightarrow> rel_source x = el_identifier (OperatorRevision_to_prov opr)
                         \<and> (PROV_TYPE, PROV_Revision) \<in> set (rel_attributes x))
     (concat (map (\<lambda>step. step []) (pipeline_version_revision_steps h c p))) = []"
  by (simp add: pipeline_version_revision_steps_def Let_def steps_concat_map
      filter_concat_map_empty split: option.splits)

lemma revision_edges_from_parameter_steps [simp]:
  "filter (\<lambda>r. case r of
                Elem e \<Rightarrow> False
              | Rel x \<Rightarrow> rel_source x = i
                         \<and> (PROV_TYPE, PROV_Revision) \<in> set (rel_attributes x))
     (concat (map (\<lambda>step. step []) (parameter_steps hash r))) = []"
  by (simp add: parameter_steps_def steps_concat_map filter_concat_map_empty)

lemma revision_edges_from_pipeline_change_steps [simp]:
  "filter (\<lambda>r. case r of
                Elem e \<Rightarrow> False
              | Rel x \<Rightarrow> rel_source x = i
                         \<and> (PROV_TYPE, PROV_Revision) \<in> set (rel_attributes x))
     (concat (map (\<lambda>step. step []) (pipeline_change_steps c p))) = []"
  by (simp add: pipeline_change_steps_def split: option.splits)

lemma modification_parent_operator_revision:
  assumes "pc_operator_revision c = Some r"
  shows "\<exists>pre post.
      (\<forall>por. build_OperatorModificationModel hash h c ppc (Some por) p
          = Inr (pre
                 @ [Elem (OperatorRevision_to_prov por),
                    edge (OperatorRevision_to_prov r) (OperatorRevision_to_prov por) ProvRevision [],
                    edge (PipelineChange_to_prov c) (OperatorRevision_to_prov por) ProvUsage
                      (time_role (pc_time c) USED_PARENT_OPERATOR_REVISION)]
                 @ post))
    \<and> build_OperatorModificationModel hash h c ppc None p = Inr (pre @ post)
    \<and> with_role USED_PARENT_OPERATOR_REVISION (pre @ post) = []
    \<and> revision_edges_from (OperatorRevision_to_prov r) (pre @ post) = []"
proof (intro exI conjI allI)
  let ?pre = "concat (map (\<lambda>step. step [])
      (pipeline_change_steps c ppc
       @ [add_element (OperatorRevision_to_prov r) False,
          add_relation (OperatorRevision_to_prov r) (PipelineChange_to_prov c) ProvGeneration
            (time_role (pc_time c) MODIFIED_OPERATOR)]))"
  let ?post = "concat (map (\<lambda>step. step [])
      ([add_element (Operator_to_prov (oprev_operator r)) False,
        add_relation (OperatorRevision_to_prov r) (Operator_to_prov (oprev_operator r))
          ProvSpecialization []]
       @ parameter_steps hash r
       @ pipeline_version_revision_steps h c p))"
  show "build_OperatorModificationModel hash h c ppc (Some por) p
          = Inr (?pre
                 @ [Elem (OperatorRevision_to_prov por),
                    edge (OperatorRevision_to_prov r) (OperatorRevision_to_prov por) ProvRevision [],
                    edge (PipelineChange_to_prov c) (OperatorRevision_to_prov por) ProvUsage
                      (time_role (pc_time c) USED_PARENT_OPERATOR_REVISION)]
                 @ ?post)" for por
    using assms by (simp add: build_OperatorModificationModel_def run_steps_appends)
  show "build_OperatorModificationModel hash h c ppc None p = Inr (?pre @ ?post)"
    using assms by (simp add: build_OperatorModificationModel_def run_steps_appends)
  show "with_role USED_PARENT_OPERATOR_REVISION (?pre @ ?post) = []"
    by (simp add: with_role_def MODIFIED_OPERATOR_def USED_PARENT_OPERATOR_REVISION_def)
  show "revision_edges_from (OperatorRevision_to_prov r) (?pre @ ?post) = []"
    by (simp add: revision_edges_from_def)
qed

lemma apply_changes_append:
  "apply_changes hash parent t (xs @ ys) s
     = (case apply_changes hash parent t xs s of
          (Some e, s') \<Rightarrow> (Some e, s')
        | (None, s') \<Rightarrow> apply_changes hash parent t ys s')"
  by (induction xs arbitrary: s) (simp_all split: prod.splits option.splits)

lemma update_resolved:
  assumes "resolve_branch hash data s = (Inr (pv, Some parent), s1)"
  shows "update hash data s
      = (case (case ds_changes data of
                 None \<Rightarrow> (None, s1\<lparr>last_pipeline_version_id := pv_id pv,
                     last_pipeline_version_revision_id := pvr_id parent\<rparr>)
               | Some changes \<Rightarrow>
                   apply_changes hash parent (ds_timestamp data) changes
                     (s1\<lparr>last_pipeline_version_id := pv_id pv,
                        last_pipeline_version_revision_id := pvr_id parent\<rparr>)) of
           (Some e, s4) \<Rightarrow> (Some e, s4)
         | (None, s4) \<Rightarrow>
             (case ds_operator_metrics data of
                None \<Rightarrow> (None, s4)
              | Some operator_metrics \<Rightarrow> apply_execution hash parent data operator_metrics s4))"
  using assms by (simp add: update_def Let_def)

lemma update_missing_operator_change:
  assumes "resolve_branch hash data s = (Inr (pv, Some parent), s1)"
    and "ds_changes data = Some (cs0 @ c # cs)"
    and "apply_changes hash parent (ds_timestamp data) cs0
           (s1\<lparr>last_pipeline_version_id := pv_id pv,
              last_pipeline_version_revision_id := pvr_id parent\<rparr>) = (None, s4)"
    and "c = OperatorModificationPipelineChangeData i operator_id operator_name changed_parameter
               changed_value
         \<or> c = OperatorDeletionPipelineChangeData i operator_id operator_name"
    and "find (\<lambda>oprev. oprev_operator oprev = \<lparr>op_id = operator_id, op_name = operator_name\<rparr>)
           (operators_of (lists s4) parent) = None"
  shows "update hash data s = (Some StopIteration, s4)"
proof -
  from assms(4,5) have "apply_changes hash parent (ds_timestamp data) (c # cs) s4
      = (Some StopIteration, s4)"
    by (auto simp add: apply_change_def next_operator_revision_def)
  with assms(1,2,3) show ?thesis
    by (simp add: update_resolved apply_changes_append)
qed

lemma update_missing_operator_execution:
  assumes "resolve_branch hash data s = (Inr (pv, Some parent), s1)"
    and "(case ds_changes data of
            None \<Rightarrow> (None, s1\<lparr>last_pipeline_version_id := pv_id pv,
                last_pipeline_version_revision_id := pvr_id parent\<rparr>)
          | Some changes \<Rightarrow>
              apply_changes hash parent (ds_timestamp data) changes
                (s1\<lparr>last_pipeline_version_id := pv_id pv,
                   last_pipeline_version_revision_id := pvr_id parent\<rparr>)) = (None, s4)"
    and "ds_operator_metrics data = Some operator_metrics"
    and "find (\<lambda>oprev. oprev_operator oprev
               = \<lparr>op_id = ds_operator_id data, op_name = ds_operator_name data\<rparr>)
           (operators_of (lists s4) parent) = None"
  shows "update hash data s = (Some StopIteration, s4)"
  using assms
  by (simp add: update_resolved apply_execution_def execution_model_def
      next_operator_revision_def)

lemma find_parent_pipeline_change_frame:
  "lists s' = lists s \<Longrightarrow> object_repository s' = object_repository s \<Longrightarrow>
   find_parent_pipeline_change parent s' = find_parent_pipeline_change parent s"
  by (simp add: find_parent_pipeline_change_def)

lemma uuid4_lists [simp]: "lists (snd (uuid4 s)) = lists s"
  by (simp add: uuid4_def)

lemma find_parent_pipeline_change_uuid4 [simp]:
  "find_parent_pipeline_change parent (snd (uuid4 s)) = find_parent_pipeline_change parent s"
  by (rule find_parent_pipeline_change_frame) simp_all

lemma change_model_parent_change:
  "change_model parent t c s = (Inr m, s') \<Longrightarrow>
   parent_change_of m = find_parent_pipeline_change parent s'"
  by (cases c)
    (auto simp add: Let_def split_def split: sum.splits)

lemma change_model_modification:
  "change_model parent t
     (OperatorModificationPipelineChangeData i operator_id operator_name changed_parameter
        changed_value) s = (Inr m, s') \<Longrightarrow>
   \<exists>c ppc por. m = OperatorModificationModel c ppc (Some por) (Some parent)"
  by (auto simp add: Let_def split_def split: sum.splits)

lemma change_model_build:
  assumes "change_model parent t c s = (Inr m, s')"
  shows "\<exists>document. build hash h m = Inr document
           \<and> (parent_change_of m = None \<longrightarrow> communication_edges document = [])"
  using assms
  by (cases c)
    (auto simp add: Let_def split_def build_OperatorCreationModel_def
      build_OperatorModificationModel_def build_OperatorDeletionModel_def
      build_ConnectionCreationModel_def build_ConnectionDeletionModel_def
      OperatorCreationPipelineChange_def OperatorModificationPipelineChange_def
      OperatorDeletionPipelineChange_def ConnectionCreationPipelineChange_def
      ConnectionDeletionPipelineChange_def run_steps_appends communication_edges_def
      pipeline_change_steps_records split: sum.splits)

lemma add_model_database:
  "add_model hash m s = (r, s') \<Longrightarrow>
   \<exists>rest. provenance_database s' = provenance_database s @ rest"
  by (auto simp add: add_model_def split: sum.splits)

lemma change_model_database:
  "change_model parent t c s = (r, s') \<Longrightarrow> provenance_database s' = provenance_database s"
  by (cases c) (auto simp add: Let_def split_def split: sum.splits)

lemma apply_change_database:
  assumes "apply_change hash parent t c s = (r, s')"
  shows "\<exists>rest. provenance_database s' = provenance_database s @ rest"
proof -
  obtain q s1 where m: "change_model parent t c s = (q, s1)"
    by (cases "change_model parent t c s")
  show ?thesis
  proof (cases q)
    case (Inl e)
    with m assms change_model_database [OF m] show ?thesis by (simp add: apply_change_def)
  next
    case (Inr model)
    with m assms have "add_model hash model s1 = (r, s')" by (simp add: apply_change_def)
    from add_model_database [OF this] change_model_database [OF m] show ?thesis by simp
  qed
qed

lemma apply_changes_database:
  "apply_changes hash parent t cs s = (r, s') \<Longrightarrow>
   \<exists>rest. provenance_database s' = provenance_database s @ rest"
proof (induction cs arbitrary: s)
  case Nil
  then show ?case by simp
next
  case (Cons c cs)
  obtain q s1 where a: "apply_change hash parent t c s = (q, s1)"
    by (cases "apply_change hash parent t c s")
  from apply_change_database [OF a]
  obtain rest1 where r1: "provenance_database s1 = provenance_database s @ rest1" by blast
  show ?case
  proof (cases q)
    case (Some e)
    with a Cons.prems r1 show ?thesis by simp
  next
    case None
    with a Cons.prems have "apply_changes hash parent t cs s1 = (r, s')" by simp
    from Cons.IH [OF this] r1 show ?thesis by auto
  qed
qed

lemma execution_model_database:
  "execution_model parent data operator_metrics s = (r, s') \<Longrightarrow>
   provenance_database s' = provenance_database s"
  by (auto simp add: execution_model_def Let_def split_def split: sum.splits)

lemma apply_execution_database:
  assumes "apply_execution hash parent data operator_metrics s = (r, s')"
  shows "\<exists>rest. provenance_database s' = provenance_database s @ rest"
proof -
  obtain q s1 where m: "execution_model parent data operator_metrics s = (q, s1)"
    by (cases "execution_model parent data operator_metrics s")
  show ?thesis
  proof (cases q)
    case (Inl e)
    with m assms execution_model_database [OF m] show ?thesis by (simp add: apply_execution_def)
  next
    case (Inr model)
    with m assms have "add_model hash model s1 = (r, s')" by (simp add: apply_execution_def)
    from add_model_database [OF this] execution_model_database [OF m] show ?thesis by simp
  qed
qed

lemma update_parent_change_passed:
  assumes "resolve_branch hash data s = (Inr (pv, Some parent), s1)"
    and "ds_changes data = Some (cs0 @ c # cs)"
    and "apply_changes hash parent (ds_timestamp data) cs0
           (s1\<lparr>last_pipeline_version_id := pv_id pv,
              last_pipeline_version_revision_id := pvr_id parent\<rparr>) = (None, s4)"
    and "change_model parent (ds_timestamp data) c s4 = (Inr m, s5)"
  shows "parent_change_of m = find_parent_pipeline_change parent s5
     \<and> (\<exists>document rest. build hash (lists s5) m = Inr document
          \<and> provenance_database (snd (update hash data s))
              = provenance_database s5 @ document # rest
          \<and> (find_parent_pipeline_change parent s5 = None
               \<longrightarrow> communication_edges document = []))"
proof -
  note p = change_model_parent_change [OF assms(4)]
  from change_model_build [OF assms(4), of hash "lists s5"]
  obtain document where d: "build hash (lists s5) m = Inr document"
    and e: "parent_change_of m = None \<longrightarrow> communication_edges document = []"
    by (elim exE conjE)
  let ?s6 = "s5\<lparr>provenance_database := provenance_database s5 @ [document]\<rparr>"
  from assms(4) d have a: "apply_change hash parent (ds_timestamp data) c s4 = (None, ?s6)"
    by (simp add: apply_change_def add_model_def)
  obtain r s7 where b: "apply_changes hash parent (ds_timestamp data) cs ?s6 = (r, s7)"
    by (cases "apply_changes hash parent (ds_timestamp data) cs ?s6")
  from apply_changes_database [OF b]
  obtain rest1 where r1: "provenance_database s7 = provenance_database s5 @ document # rest1"
    by auto
  from assms(1,2,3) a b have u: "update hash data s
      = (case r of
           Some e \<Rightarrow> (Some e, s7)
         | None \<Rightarrow>
             (case ds_operator_metrics data of
                None \<Rightarrow> (None, s7)
              | Some operator_metrics \<Rightarrow> apply_execution hash parent data operator_metrics s7))"
    by (simp add: update_resolved apply_changes_append split: option.splits)
  have "\<exists>rest. provenance_database (snd (update hash data s))
      = provenance_database s5 @ document # rest"
  proof (cases r)
    case (Some e)
    with u r1 show ?thesis by simp
  next
    case None
    show ?thesis
    proof (cases "ds_operator_metrics data")
      case None
      with u \<open>r = None\<close> r1 show ?thesis by simp
    next
      case (Some operator_metrics)
      obtain q s8 where x: "apply_execution hash parent data operator_metrics s7 = (q, s8)"
        by (cases "apply_execution hash parent data operator_metrics s7")
      from apply_execution_database [OF x] r1 u \<open>r = None\<close> Some x show ?thesis by auto
    qed
  qed
  with p d e show ?thesis by auto
qed

lemma find_parent_pipeline_change_eq:
  "find_parent_pipeline_change parent s
     = (let recorded = filter (\<lambda>c. getattr_PipelineChange (lists s) c PC_pipeline_version_revision
                                   = value_PipelineVersionRevision (lists s) parent)
                         (PipelineChange_list (object_repository s))
        in if recorded = [] then None else Some (last recorded))"
  by (simp add: find_parent_pipeline_change_def list_all_resources_def matches_def [abs_def]
      Let_def)

text \<open>
  Claim C5, as the code has it. (1) A new branch whose parent branch is unknown ends
  \<open>update\<close> with \<open>AttributeError\<close> and leaves the state as it was. (2) Finding no
  revision of the event's operator in the parent revision's operators, at an
  \<open>OperatorModification\<close> or \<open>OperatorDeletion\<close> anywhere in the step's changes, ends
  \<open>update\<close> with \<open>StopIteration\<close> in the state the changes before it left: no
  fragment is built for the change. (3) The same lookup in the execution application
  ends \<open>update\<close> with \<open>StopIteration\<close> in the state the changes left. (4) The lookup
  of the parent's most recent recorded change yields \<open>None\<close> exactly when no stored
  change has the parent revision, and the last such change otherwise. (5) For every
  change of a step that yields a model, the parent change the model carries is the
  result of that lookup, the builder returns a document for the model, \<open>update\<close>
  imports this document, and the document has no communication edge when the lookup
  found nothing. (6) Each of the five change builders, given no parent change, raises
  exactly when it raises with one, and otherwise returns the document it returns with
  a parent change less the parent change and the communication edge to it; no
  communication edge is left. (7) The modification builder, given no parent operator
  revision, returns the document it returns with one less the parent operator revision,
  the revision edge and the usage edge to it; no edge with role
  \<^verbatim>\<open>UsedParentOperatorRevision\<close> and no revision edge from the operator revision
  is left. (8) The model that \<open>update\<close> makes for an \<open>OperatorModification\<close> always
  carries a parent operator revision.
\<close>

theorem update_missing_lookups:
  "(get getattr_PipelineVersion (PipelineVersion_list (object_repository s))
        [(PV_id, O_int (ds_branch_id data))] = None
      \<and> get getattr_PipelineVersion (PipelineVersion_list (object_repository s))
        [(PV_id, opt_obj O_int (ds_parent_branch_id data))] = None
      \<and> (initialized s \<or> PipelineVersion_list (object_repository s) \<noteq> [])
      \<longrightarrow> update hash data s = (Some AttributeError, s))
   \<and> (resolve_branch hash data s = (Inr (pv, Some parent), s1)
      \<and> ds_changes data = Some (cs0 @ change # cs)
      \<and> apply_changes hash parent (ds_timestamp data) cs0
           (s1\<lparr>last_pipeline_version_id := pv_id pv,
              last_pipeline_version_revision_id := pvr_id parent\<rparr>) = (None, s4)
      \<and> (change = OperatorModificationPipelineChangeData i operator_id operator_name
                     changed_parameter changed_value
           \<or> change = OperatorDeletionPipelineChangeData i operator_id operator_name)
      \<and> find (\<lambda>oprev. oprev_operator oprev = \<lparr>op_id = operator_id, op_name = operator_name\<rparr>)
           (operators_of (lists s4) parent) = None
      \<longrightarrow> update hash data s = (Some StopIteration, s4))
   \<and> (resolve_branch hash data s = (Inr (pv, Some parent), s1)
      \<and> (case ds_changes data of
            None \<Rightarrow> (None, s1\<lparr>last_pipeline_version_id := pv_id pv,
                last_pipeline_version_revision_id := pvr_id parent\<rparr>)
          | Some changes \<Rightarrow>
              apply_changes hash parent (ds_timestamp data) changes
                (s1\<lparr>last_pipeline_version_id := pv_id pv,
                   last_pipeline_version_revision_id := pvr_id parent\<rparr>)) = (None, s4)
      \<and> ds_operator_metrics data = Some operator_metrics
      \<and> find (\<lambda>oprev. oprev_operator oprev
               = \<lparr>op_id = ds_operator_id data, op_name = ds_operator_name data\<rparr>)
           (operators_of (lists s4) parent) = None
      \<longrightarrow> update hash data s = (Some StopIteration, s4))
   \<and> find_parent_pipeline_change parent s
       = (let recorded = filter (\<lambda>c. getattr_PipelineChange (lists s) c PC_pipeline_version_revision
                                      = value_PipelineVersionRevision (lists s) parent)
                            (PipelineChange_list (object_repository s))
          in if recorded = [] then None else Some (last recorded))
   \<and> (resolve_branch hash data s = (Inr (pv, Some parent), s1)
      \<and> ds_changes data = Some (cs0 @ change # cs)
      \<and> apply_changes hash parent (ds_timestamp data) cs0
           (s1\<lparr>last_pipeline_version_id := pv_id pv,
              last_pipeline_version_revision_id := pvr_id parent\<rparr>) = (None, s4)
      \<and> change_model parent (ds_timestamp data) change s4 = (Inr m, s5)
      \<longrightarrow> parent_change_of m = find_parent_pipeline_change parent s5
        \<and> (\<exists>document rest. build hash (lists s5) m = Inr document
             \<and> provenance_database (snd (update hash data s))
                 = provenance_database s5 @ document # rest
             \<and> (find_parent_pipeline_change parent s5 = None
                  \<longrightarrow> communication_edges document = [])))
   \<and> list_all2 (\<lambda>with_parent without_parent.
         case with_parent of
           Inl e \<Rightarrow> without_parent = Inl e
         | Inr document \<Rightarrow>
             (\<exists>rest. document = Elem (PipelineChange_to_prov c) # Elem (PipelineChange_to_prov ppc)
                        # edge (PipelineChange_to_prov c) (PipelineChange_to_prov ppc)
                            ProvCommunication [] # rest
                   \<and> without_parent = Inr (Elem (PipelineChange_to_prov c) # rest)
                   \<and> communication_edges (Elem (PipelineChange_to_prov c) # rest) = []))
       (map (build hash h) (change_models c (Some ppc) parent_operator_revision p))
       (map (build hash h) (change_models c None parent_operator_revision p))
   \<and> (pc_operator_revision c = Some r
      \<longrightarrow> (\<exists>pre post.
            (\<forall>por. build_OperatorModificationModel hash h c parent_change (Some por) p
                = Inr (pre
                       @ [Elem (OperatorRevision_to_prov por),
                          edge (OperatorRevision_to_prov r) (OperatorRevision_to_prov por)
                            ProvRevision [],
                          edge (PipelineChange_to_prov c) (OperatorRevision_to_prov por) ProvUsage
                            (time_role (pc_time c) USED_PARENT_OPERATOR_REVISION)]
                       @ post))
          \<and> build_OperatorModificationModel hash h c parent_change None p = Inr (pre @ post)
          \<and> with_role USED_PARENT_OPERATOR_REVISION (pre @ post) = []
          \<and> revision_edges_from (OperatorRevision_to_prov r) (pre @ post) = []))
   \<and> (change_model parent t
         (OperatorModificationPipelineChangeData i operator_id operator_name changed_parameter
            changed_value) s = (Inr m, s')
      \<longrightarrow> (\<exists>c ppc por. m = OperatorModificationModel c ppc (Some por) (Some parent)))"
  apply (intro conjI impI)
  subgoal by (elim conjE) (rule missing_parent_branch)
  subgoal by (elim conjE) (rule update_missing_operator_change)
  subgoal by (elim conjE) (rule update_missing_operator_execution)
  subgoal by (rule find_parent_pipeline_change_eq)
  subgoal by (elim conjE) (rule update_parent_change_passed [THEN conjunct1])
  subgoal by (elim conjE) (rule update_parent_change_passed [THEN conjunct2])
  subgoal by (rule change_builders_parent_change)
  subgoal by (rule modification_parent_operator_revision)
  subgoal by (rule change_model_modification)
  done

theorem update_missing_lookups_witness:
  "update (\<lambda>v. 0) example_step_unknown_parent example_initialized
     = (Some AttributeError, example_initialized)
   \<and> fst (update (\<lambda>v. 0) example_step_modification example_initialized) = Some StopIteration
   \<and> fst (update (\<lambda>v. 0) example_step_deletion example_initialized) = Some StopIteration
   \<and> fst (update (\<lambda>v. 0) example_step_execution example_initialized) = Some StopIteration
   \<and> (\<exists>document rest.
         provenance_database (snd (update (\<lambda>v. 0) example_step_one_change example_initialized))
           = provenance_database example_initialized @ document # rest
       \<and> communication_edges document = [])
   \<and> (\<exists>pre post.
         build_OperatorModificationModel (\<lambda>v. 0) (lists example_initialized)
           (OperatorModificationPipelineChange ''u'' (PyFloat ''2.0'') example_operator_revision
              example_parent None) None None (Some example_parent) = Inr (pre @ post)
       \<and> with_role USED_PARENT_OPERATOR_REVISION (pre @ post) = []
       \<and> revision_edges_from (OperatorRevision_to_prov example_operator_revision) (pre @ post) = [])
   \<and> (\<exists>c ppc por s'.
         change_model example_parent (PyFloat ''2.0'')
           (OperatorModificationPipelineChangeData ''c2'' 7 ''map'' ''lr'' (O_float (PyFloat ''0.2'')))
           example_initialized
         = (Inr (OperatorModificationModel c ppc (Some por) (Some example_parent)), s'))"
proof -
  let ?pv = "\<lparr>pv_id = 0, pv_parent_pipeline_version_id = None\<rparr>"
  let ?s3 = "example_initialized\<lparr>last_pipeline_version_id := pv_id ?pv,
      last_pipeline_version_revision_id := pvr_id example_parent\<rparr>"
  note t = update_missing_lookups [where hash = "\<lambda>v. 0" and s = example_initialized
      and parent = example_parent and pv = ?pv and ?s1.0 = example_initialized and ?cs0.0 = "[]"
      and cs = "[]" and ?s4.0 = ?s3]
  have f: "find (\<lambda>oprev. oprev_operator oprev = \<lparr>op_id = 8, op_name = ''filter''\<rparr>)
         (operators_of (lists ?s3) example_parent) = None"
    by (simp add: example_initialized_facts example_operator_revision_def)
  have a: "apply_changes (\<lambda>v. 0) example_parent t [] ?s3 = (None, ?s3)" for t by simp
  have w1: "update (\<lambda>v. 0) example_step_unknown_parent example_initialized
      = (Some AttributeError, example_initialized)"
  proof -
    have "get getattr_PipelineVersion (PipelineVersion_list (object_repository example_initialized))
        [(PV_id, O_int (ds_branch_id example_step_unknown_parent))] = None
      \<and> get getattr_PipelineVersion (PipelineVersion_list (object_repository example_initialized))
        [(PV_id, opt_obj O_int (ds_parent_branch_id example_step_unknown_parent))] = None
      \<and> (initialized example_initialized
          \<or> PipelineVersion_list (object_repository example_initialized) \<noteq> [])"
      by (simp add: get_def matches_def example_initialized_facts example_step_unknown_parent_def)
    with t [where data = example_step_unknown_parent, THEN conjunct1] show ?thesis by blast
  qed
  have w2: "update (\<lambda>v. 0) example_step_modification example_initialized
      = (Some StopIteration, ?s3)"
  proof -
    have "resolve_branch (\<lambda>v. 0) example_step_modification example_initialized
          = (Inr (?pv, Some example_parent), example_initialized)
      \<and> ds_changes example_step_modification
          = Some ([] @ OperatorModificationPipelineChangeData ''c2'' 8 ''filter'' ''lr''
                         (O_float (PyFloat ''0.2'')) # [])
      \<and> apply_changes (\<lambda>v. 0) example_parent (ds_timestamp example_step_modification) [] ?s3
          = (None, ?s3)
      \<and> (OperatorModificationPipelineChangeData ''c2'' 8 ''filter'' ''lr''
             (O_float (PyFloat ''0.2''))
           = OperatorModificationPipelineChangeData ''c2'' 8 ''filter'' ''lr''
               (O_float (PyFloat ''0.2''))
          \<or> OperatorModificationPipelineChangeData ''c2'' 8 ''filter'' ''lr''
               (O_float (PyFloat ''0.2''))
           = OperatorDeletionPipelineChangeData ''c2'' 8 ''filter'')
      \<and> find (\<lambda>oprev. oprev_operator oprev = \<lparr>op_id = 8, op_name = ''filter''\<rparr>)
           (operators_of (lists ?s3) example_parent) = None"
      using f by (simp add: example_resolve_branch example_step_modification_def)
    with t [where data = example_step_modification
        and change = "OperatorModificationPipelineChangeData ''c2'' 8 ''filter'' ''lr''
               (O_float (PyFloat ''0.2''))"
        and i = "''c2''" and operator_id = 8 and operator_name = "''filter''"
        and changed_parameter = "''lr''" and changed_value = "O_float (PyFloat ''0.2'')",
        THEN conjunct2, THEN conjunct1]
    show ?thesis by blast
  qed
  have w3: "update (\<lambda>v. 0) example_step_deletion example_initialized
      = (Some StopIteration, ?s3)"
  proof -
    have "resolve_branch (\<lambda>v. 0) example_step_deletion example_initialized
          = (Inr (?pv, Some example_parent), example_initialized)
      \<and> ds_changes example_step_deletion
          = Some ([] @ OperatorDeletionPipelineChangeData ''c2'' 8 ''filter'' # [])
      \<and> apply_changes (\<lambda>v. 0) example_parent (ds_timestamp example_step_deletion) [] ?s3
          = (None, ?s3)
      \<and> (OperatorDeletionPipelineChangeData ''c2'' 8 ''filter''
           = OperatorModificationPipelineChangeData ''c2'' 8 ''filter'' ''lr''
               (O_float (PyFloat ''0.2''))
          \<or> OperatorDeletionPipelineChangeData ''c2'' 8 ''filter''
           = OperatorDeletionPipelineChangeData ''c2'' 8 ''filter'')
      \<and> find (\<lambda>oprev. oprev_operator oprev = \<lparr>op_id = 8, op_name = ''filter''\<rparr>)
           (operators_of (lists ?s3) example_parent) = None"
      using f by (simp add: example_resolve_branch example_step_deletion_def)
    with t [where data = example_step_deletion
        and change = "OperatorDeletionPipelineChangeData ''c2'' 8 ''filter''"
        and i = "''c2''" and operator_id = 8 and operator_name = "''filter''"
        and changed_parameter = "''lr''" and changed_value = "O_float (PyFloat ''0.2'')",
        THEN conjunct2, THEN conjunct1]
    show ?thesis by blast
  qed
  have w4: "update (\<lambda>v. 0) example_step_execution example_initialized
      = (Some StopIteration, ?s3)"
  proof -
    have "resolve_branch (\<lambda>v. 0) example_step_execution example_initialized
          = (Inr (?pv, Some example_parent), example_initialized)
      \<and> (case ds_changes example_step_execution of
            None \<Rightarrow> (None, ?s3)
          | Some changes \<Rightarrow>
              apply_changes (\<lambda>v. 0) example_parent (ds_timestamp example_step_execution)
                changes ?s3) = (None, ?s3)
      \<and> ds_operator_metrics example_step_execution = Some []
      \<and> find (\<lambda>oprev. oprev_operator oprev
               = \<lparr>op_id = ds_operator_id example_step_execution,
                  op_name = ds_operator_name example_step_execution\<rparr>)
           (operators_of (lists ?s3) example_parent) = None"
      using f by (simp add: example_resolve_branch example_step_execution_def)
    with t [where data = example_step_execution and operator_metrics = "[]",
        THEN conjunct2, THEN conjunct2, THEN conjunct1]
    show ?thesis by blast
  qed
  have w5: "\<exists>document rest.
         provenance_database (snd (update (\<lambda>v. 0) example_step_one_change example_initialized))
           = provenance_database example_initialized @ document # rest
       \<and> communication_edges document = []"
  proof -
    obtain m s5 where c: "change_model example_parent (ds_timestamp example_step_one_change)
        (ConnectionDeletionPipelineChangeData ''c4'' 9 7 8 0 0) ?s3 = (Inr m, s5)"
      by (simp add: Let_def split_def)
    from c have r: "object_repository s5 = object_repository example_initialized"
      and l: "lists s5 = lists (set_connection_list (pvr_connections example_parent)
                 (connections_of (lists ?s3) example_parent
                  @ [\<lparr>con_id = 9, con_from_operator_id = 7, con_to_operator_id = 8\<rparr>]) ?s3)"
      and d: "provenance_database s5 = provenance_database example_initialized"
      by (auto simp add: Let_def split_def)
    from r have n: "find_parent_pipeline_change example_parent s5 = None"
      by (simp add: find_parent_pipeline_change_def list_all_resources_def
          example_initialized_facts)
    have "resolve_branch (\<lambda>v. 0) example_step_one_change example_initialized
          = (Inr (?pv, Some example_parent), example_initialized)
      \<and> ds_changes example_step_one_change
          = Some ([] @ ConnectionDeletionPipelineChangeData ''c4'' 9 7 8 0 0 # [])
      \<and> apply_changes (\<lambda>v. 0) example_parent (ds_timestamp example_step_one_change) [] ?s3
          = (None, ?s3)
      \<and> change_model example_parent (ds_timestamp example_step_one_change)
          (ConnectionDeletionPipelineChangeData ''c4'' 9 7 8 0 0) ?s3 = (Inr m, s5)"
      using c by (simp add: example_resolve_branch example_step_one_change_def)
    with t [where data = example_step_one_change
        and change = "ConnectionDeletionPipelineChangeData ''c4'' 9 7 8 0 0"
        and m = m and ?s5.0 = s5,
        THEN conjunct2, THEN conjunct2, THEN conjunct2, THEN conjunct2, THEN conjunct1]
    have "\<exists>document rest. build (\<lambda>v. 0) (lists s5) m = Inr document
             \<and> provenance_database (snd (update (\<lambda>v. 0) example_step_one_change example_initialized))
                 = provenance_database s5 @ document # rest
             \<and> (find_parent_pipeline_change example_parent s5 = None
                  \<longrightarrow> communication_edges document = [])"
      by blast
    with n d show ?thesis by auto
  qed
  have w6: "\<exists>pre post.
         build_OperatorModificationModel (\<lambda>v. 0) (lists example_initialized)
           (OperatorModificationPipelineChange ''u'' (PyFloat ''2.0'') example_operator_revision
              example_parent None) None None (Some example_parent) = Inr (pre @ post)
       \<and> with_role USED_PARENT_OPERATOR_REVISION (pre @ post) = []
       \<and> revision_edges_from (OperatorRevision_to_prov example_operator_revision) (pre @ post) = []"
  proof -
    have o: "pc_operator_revision (OperatorModificationPipelineChange ''u'' (PyFloat ''2.0'')
        example_operator_revision example_parent None) = Some example_operator_revision"
      by (simp add: OperatorModificationPipelineChange_def)
    from update_missing_lookups [where hash = "\<lambda>v. 0" and h = "lists example_initialized"
        and c = "OperatorModificationPipelineChange ''u'' (PyFloat ''2.0'')
          example_operator_revision example_parent None"
        and r = example_operator_revision and parent_change = None
        and p = "Some example_parent",
        THEN conjunct2, THEN conjunct2, THEN conjunct2, THEN conjunct2, THEN conjunct2,
        THEN conjunct2, THEN conjunct1] o
    show ?thesis by blast
  qed
  have w7: "\<exists>c ppc por s'.
         change_model example_parent (PyFloat ''2.0'')
           (OperatorModificationPipelineChangeData ''c2'' 7 ''map'' ''lr'' (O_float (PyFloat ''0.2'')))
           example_initialized
         = (Inr (OperatorModificationModel c ppc (Some por) (Some example_parent)), s')"
  proof -
    obtain m s' where c: "change_model example_parent (PyFloat ''2.0'')
           (OperatorModificationPipelineChangeData ''c2'' 7 ''map'' ''lr'' (O_float (PyFloat ''0.2'')))
           example_initialized = (Inr m, s')"
      by (simp add: Let_def split_def example_initialized_facts next_operator_revision_def
          example_operator_revision_def)
    from update_missing_lookups [where parent = example_parent and s = example_initialized
        and t = "PyFloat ''2.0''" and i = "''c2''" and operator_id = 7
        and operator_name = "''map''" and changed_parameter = "''lr''"
        and changed_value = "O_float (PyFloat ''0.2'')" and m = m and s' = s',
        THEN conjunct2, THEN conjunct2, THEN conjunct2, THEN conjunct2, THEN conjunct2,
        THEN conjunct2, THEN conjunct2] c
    show ?thesis by blast
  qed
  from w1 w2 w3 w4 w5 w6 w7 show ?thesis by simp
qed
end
